theory Spec2Isabelle
  imports Main "HOL-Library.Word" "HOL-Library.AList"
begin

unbundle bit_operations_syntax

section \<open>Formatted numbers\<close>

text \<open>
  What \<^verbatim>\<open>printf\<close> writes for \<^verbatim>\<open>%d\<close>: the decimal digits of the number, after a minus
  sign when it is negative.
\<close>

function dec_digits :: "nat \<Rightarrow> string" where
  "dec_digits n =
     (if n < 10 then [''0123456789'' ! n]
      else dec_digits (n div 10) @ [''0123456789'' ! (n mod 10)])"
  by pat_completeness auto
termination
  by (relation "measure id") auto

declare dec_digits.simps [simp del]

definition printf_d :: "int \<Rightarrow> string" where
  "printf_d i = (if i < 0 then CHR ''-'' # dec_digits (nat (- i)) else dec_digits (nat i))"

section \<open>The file-list model (fl_list, fl_search, fl_load)\<close>

text \<open>
  \<^verbatim>\<open>struct fl_list\<close>: a node of a file listing. The \<^verbatim>\<open>parent\<close> back pointer is
  left out (a node owns its children, the tree is the datatype); \<^verbatim>\<open>sub\<close> is the
  \<^verbatim>\<open>GPtrArray\<close> of children, which only directory nodes carry.
\<close>

type_synonym byte = "8 word"

datatype fl_list = Fl_list
  (fl_name: string)
  (fl_size: "64 word")
  (fl_tth: "byte list")
  (isfile: bool)
  (hastth: bool)
  (islocal: bool)
  (sub: "fl_list list")

text \<open>
  \<^verbatim>\<open>fl_list_isempty\<close>: the guard \<^verbatim>\<open>g_return_val_if_fail(!fl->isfile, FALSE)\<close>, then the
  loop over \<^verbatim>\<open>fl->sub\<close>, which returns FALSE at the first child that is a directory or
  a hashed file.
\<close>

fun fl_list_isempty_loop :: "fl_list list \<Rightarrow> bool" where
  "fl_list_isempty_loop [] = True"
| "fl_list_isempty_loop (f # fs) =
     (if \<not> isfile f \<or> hastth f then False else fl_list_isempty_loop fs)"

definition fl_list_isempty :: "fl_list \<Rightarrow> bool" where
  "fl_list_isempty fl = (if isfile fl then False else fl_list_isempty_loop (sub fl))"

text \<open>
  The reading of the specification's sentence on \<^verbatim>\<open>is_empty\<close>: some node of the subtree
  (the node itself or a descendant at any depth) is a file that carries a TTH.
\<close>

fun subtree_has_tth_file :: "fl_list \<Rightarrow> bool" where
  "subtree_has_tth_file (Fl_list nm sz th isf hast loc subs) =
     ((isf \<and> hast) \<or> list_ex subtree_has_tth_file subs)"

text \<open>
  \<^verbatim>\<open>struct fl_search\<close>. \<^verbatim>\<open>sizem\<close> and \<^verbatim>\<open>filedir\<close> are C chars; \<^verbatim>\<open>sizem\<close> is read as a
  signed value (-2 any, -1 at most, 0 equal, 1 larger). The compiled regular
  expressions of GLib are an abstract type \<open>'r\<close>, matched by the parameter \<open>rmatch\<close>
  (\<^verbatim>\<open>g_regex_match\<close>); \<^verbatim>\<open>and\<close> is the NULL-terminated array of keywords, \<^verbatim>\<open>not\<close> may be
  NULL.
\<close>

record 'r fl_search =
  sizem :: "8 word"
  filedir :: "8 word"
  s_size :: "64 word"
  ext :: "string list"
  s_and :: "'r list"
  s_not :: "'r option"

text \<open>\<^verbatim>\<open>g_ascii_strcasecmp(a, b) == 0\<close>: equality up to the case of ASCII letters.\<close>

definition ascii_tolower :: "char \<Rightarrow> char" where
  "ascii_tolower c =
     (if (65::nat) \<le> of_char c \<and> (of_char c :: nat) \<le> 90
      then char_of ((of_char c :: nat) + 32) else c)"

definition ascii_strcaseeq :: "string \<Rightarrow> string \<Rightarrow> bool" where
  "ascii_strcaseeq a b = (map ascii_tolower a = map ascii_tolower b)"

text \<open>
  \<^verbatim>\<open>strrchr(name, '.')\<close> followed by \<^verbatim>\<open>l++\<close>: the text after the last dot, or nothing when
  the name has no dot.
\<close>

fun after_last_dot :: "string \<Rightarrow> string option" where
  "after_last_dot [] = None"
| "after_last_dot (c # cs) =
     (case after_last_dot cs of
        Some r \<Rightarrow> Some r
      | None \<Rightarrow> if c = CHR ''.'' then Some cs else None)"

definition fl_search_match_name ::
  "('r \<Rightarrow> string \<Rightarrow> bool) \<Rightarrow> fl_list \<Rightarrow> 'r fl_search \<Rightarrow> bool" where
  "fl_search_match_name rmatch fl s =
     (if list_ex (\<lambda>r. \<not> rmatch r (fl_name fl)) (s_and s) then False
      else if (case s_not s of None \<Rightarrow> False | Some r \<Rightarrow> rmatch r (fl_name fl)) then False
      else if ext s = [] then True
      else (case after_last_dot (fl_name fl) of
              None \<Rightarrow> False
            | Some l \<Rightarrow> if l = [] then False else list_ex (ascii_strcaseeq l) (ext s)))"

text \<open>The macro \<^verbatim>\<open>fl_search_match(fl, s)\<close>, conjunct by conjunct.\<close>

definition fl_search_match ::
  "('r \<Rightarrow> string \<Rightarrow> bool) \<Rightarrow> fl_list \<Rightarrow> 'r fl_search \<Rightarrow> bool" where
  "fl_search_match rmatch fl s =
     ((((filedir s AND 2) \<noteq> 0 \<and> \<not> isfile fl)
        \<or> ((filedir s AND 1) \<noteq> 0 \<and> isfile fl \<and> hastth fl))
      \<and> (sint (sizem s) = - 2
          \<or> (sizem s = 0 \<and> fl_size fl = s_size s)
          \<or> (sint (sizem s) < 0 \<and> fl_size fl \<le> s_size s)
          \<or> (sint (sizem s) > 0 \<and> fl_size fl > s_size s))
      \<and> fl_search_match_name rmatch fl s)"

text \<open>
  \<^verbatim>\<open>fl_load_fixinput(buf, len)\<close>: the list is the memory at \<^verbatim>\<open>buf\<close>; the loop runs while
  \<^verbatim>\<open>len > 1\<close>, rewrites a byte 0x1d to \<^verbatim>\<open>'?'\<close> (0x3f), and moves on. (A list shorter
  than \<^verbatim>\<open>len\<close> would be a read past the buffer in C; the callers pass the number of
  bytes just read into it.)
\<close>

fun fl_load_fixinput :: "byte list \<Rightarrow> int \<Rightarrow> byte list" where
  "fl_load_fixinput [] len = []"
| "fl_load_fixinput (b # bs) len =
     (if len > 1 then (if b = 0x1d then 0x3f else b) # fl_load_fixinput bs (len - 1)
      else b # bs)"

text \<open>
  \<^verbatim>\<open>fl_load_input\<close>, the read callback handed to the XML reader. The two libraries
  under it are inputs of the model: \<open>rd\<close> is what \<^verbatim>\<open>BZ2_bzRead\<close> or \<^verbatim>\<open>fread\<close> stored
  in the buffer, \<open>r\<close> the count it returned and \<open>bzerr\<close> the bzip2 status, whose
  number is \<open>bz_code\<close> (\<^verbatim>\<open>BZ_OK\<close> is 0 and \<^verbatim>\<open>BZ_STREAM_END\<close> is 4 in bzlib.h). The
  result is the return value, the buffer as the XML layer then sees it, and the context.
  The text of \<^verbatim>\<open>g_strerror(errno)\<close> is written \<^verbatim>\<open>errno\<close>.
\<close>

datatype bz_status = BZ_OK | BZ_STREAM_END | BZ_OTHER int

fun bz_code :: "bz_status \<Rightarrow> int" where
  "bz_code BZ_OK = 0"
| "bz_code BZ_STREAM_END = 4"
| "bz_code (BZ_OTHER n) = n"

record fl_load_context =
  fh_bz :: bool
  fh_f :: bool
  stream_end :: bool
  xc_err :: "string option"

definition fl_load_input ::
  "fl_load_context \<Rightarrow> byte list \<Rightarrow> int \<Rightarrow> bz_status \<Rightarrow> int \<times> byte list \<times> fl_load_context" where
  "fl_load_input xc rd r bzerr =
     (if stream_end xc then (0, [], xc)
      else if fh_bz xc then
        (if bz_code bzerr \<noteq> 0 \<and> bz_code bzerr \<noteq> 4
         then (- 1, rd,
               xc\<lparr>xc_err := Some (''bzip2 decompression error. ('' @ printf_d (bz_code bzerr)
                                   @ '')'')\<rparr>)
         else (r, fl_load_fixinput rd r, xc\<lparr>stream_end := (bz_code bzerr = 4)\<rparr>))
      else if fh_f xc then
        (r, fl_load_fixinput rd r,
         (if r < 0 then xc\<lparr>xc_err := Some ''Read error: errno''\<rparr> else xc)
           \<lparr>stream_end := (r \<le> 0)\<rparr>)
      else (- 1, rd, xc))"

section \<open>The listener multiplexer (listen.c)\<close>

text \<open>
  \<^verbatim>\<open>LBT_TLS\<close> (0), \<^verbatim>\<open>LBT_UDP\<close> (1) and \<^verbatim>\<open>LBT_TCP\<close> (2) are the only values
  \<^verbatim>\<open>listen_refresh\<close> passes as a bind type.
\<close>

datatype lbt = LBT_TLS | LBT_UDP | LBT_TCP

text \<open>
  \<^verbatim>\<open>struct listen_bind\<close>. \<open>lb_addr\<close> stands for the address of the allocated struct:
  the hubs' \<^verbatim>\<open>tcp\<close>, \<^verbatim>\<open>udp\<close> and \<^verbatim>\<open>tls\<close> pointers hold it. \<^verbatim>\<open>hubs\<close> is the list of
  \<^verbatim>\<open>listen_hub_bind\<close> pointers, a hub being named by its id (the key of the hash table
  that owns the struct).
\<close>

record listen_bind =
  lb_addr :: nat
  lb_type :: lbt
  lb_port :: "16 word"
  lb_ip4 :: "32 word"
  lb_src :: int
  lb_sock :: int
  lb_hubs :: "64 word list"

record listen_hub_bind =
  hb_tcp :: "nat option"
  hb_udp :: "nat option"
  hb_tls :: "nat option"

text \<open>What the process asks of the operating system and of the event loop, in order.\<close>

datatype sock_kind = SOCK_STREAM | SOCK_DGRAM

datatype os_call =
    Sys_socket sock_kind
  | Sys_setsockopt_reuseaddr int
  | Sys_fcntl_nonblock int
  | Sys_bind int "32 word" "16 word"
  | Sys_listen int int
  | Sys_close int
  | Src_attach int
  | Src_remove int
  | Ui_passive_message

text \<open>
  The answers of the operating system are inputs of the model: the descriptor (or a
  negative value) \<^verbatim>\<open>socket()\<close> returns for a bind, the \<^verbatim>\<open>errno\<close> of a failed \<^verbatim>\<open>bind()\<close>
  or \<^verbatim>\<open>listen()\<close> on a descriptor (0 when the call succeeds), and the source id the
  event loop gives a descriptor.
\<close>

record os_answers =
  os_socket :: "lbt \<Rightarrow> 32 word \<Rightarrow> 16 word \<Rightarrow> int"
  os_bind_errno :: "int \<Rightarrow> 32 word \<Rightarrow> 16 word \<Rightarrow> int"
  os_listen_errno :: "int \<Rightarrow> int"
  os_source_id :: "int \<Rightarrow> int"

text \<open>
  The globals of listen.c: \<^verbatim>\<open>listen_binds\<close>, \<^verbatim>\<open>listen_hub_binds\<close> (the hash table from
  hub id to \<^verbatim>\<open>listen_hub_bind\<close>, as an association list with one entry per key), the
  three random ports, and with them the next free address and the calls made so far.
\<close>

record listen_state =
  listen_binds :: "listen_bind list"
  listen_hub_binds :: "(64 word \<times> listen_hub_bind) list"
  random_tcp_port :: "16 word"
  random_udp_port :: "16 word"
  random_tls_port :: "16 word"
  next_addr :: nat
  os_calls :: "os_call list"

text \<open>
  \<^verbatim>\<open>listen_global_init\<close>. \<^verbatim>\<open>g_random_int_range(begin, end)\<close> is GLib's. Each call takes
  the next element of \<open>draws\<close>, the generator's answer as a function of the bounds it
  is given, and the source gives it the bounds 1025 and 65535. The assignment to a
  \<^verbatim>\<open>guint16\<close> keeps the low 16 bits. The do-while loop draws the TLS port again while it
  equals the TCP port; a list of draws that ends before the function does gives \<open>None\<close>.
\<close>

type_synonym g_random_draw = "int \<Rightarrow> int \<Rightarrow> int"

fun draw_tls_port :: "16 word \<Rightarrow> g_random_draw list \<Rightarrow> (16 word \<times> g_random_draw list) option" where
  "draw_tls_port tcp [] = None"
| "draw_tls_port tcp (d # ds) =
     (if (word_of_int (d 1025 65535) :: 16 word) = tcp then draw_tls_port tcp ds
      else Some (word_of_int (d 1025 65535), ds))"

definition listen_global_init :: "g_random_draw list \<Rightarrow> listen_state option" where
  "listen_global_init draws =
     (case draws of
        [] \<Rightarrow> None
      | d # ds \<Rightarrow>
          (case draw_tls_port (word_of_int (d 1025 65535)) ds of
             None \<Rightarrow> None
           | Some (tls, ds') \<Rightarrow>
               (case ds' of
                  [] \<Rightarrow> None
                | u # _ \<Rightarrow>
                    Some \<lparr>listen_binds = [], listen_hub_binds = [],
                          random_tcp_port = word_of_int (d 1025 65535),
                          random_udp_port = word_of_int (u 1025 65535),
                          random_tls_port = tls, next_addr = 1, os_calls = []\<rparr>)))"


text \<open>
  \<^verbatim>\<open>listen_stop\<close>: empties the hub table, removes the event source and closes the socket
  of every bind that has one, and frees the list.
\<close>

fun listen_stop_calls :: "listen_bind list \<Rightarrow> os_call list" where
  "listen_stop_calls [] = []"
| "listen_stop_calls (lb # bs) =
     (if lb_src lb \<noteq> 0 then [Src_remove (lb_src lb)] else [])
     @ (if lb_sock lb \<noteq> 0 then [Sys_close (lb_sock lb)] else [])
     @ listen_stop_calls bs"

definition listen_stop :: "listen_state \<Rightarrow> listen_state" where
  "listen_stop s =
     s\<lparr>listen_hub_binds := [],
       os_calls := os_calls s @ listen_stop_calls (listen_binds s),
       listen_binds := []\<rparr>"

text \<open>
  The macro \<^verbatim>\<open>bind_hub_add(lb, h)\<close> in two halves: the hub's pointer for the type of the
  bind is set to the bind, and the hub is prepended to the bind's \<^verbatim>\<open>hubs\<close>.
\<close>

type_synonym hub_table = "(64 word \<times> listen_hub_bind) list"

definition hub_set_bind :: "lbt \<Rightarrow> nat \<Rightarrow> 64 word \<Rightarrow> hub_table \<Rightarrow> hub_table" where
  "hub_set_bind ty a h m =
     (case map_of m h of
        None \<Rightarrow> m
      | Some hb \<Rightarrow>
          AList.update h (if ty = LBT_TCP then hb\<lparr>hb_tcp := Some a\<rparr>
                          else if ty = LBT_UDP then hb\<lparr>hb_udp := Some a\<rparr>
                          else hb\<lparr>hb_tls := Some a\<rparr>) m)"

definition bind_hub_add :: "listen_bind \<Rightarrow> 64 word \<Rightarrow> hub_table \<Rightarrow> listen_bind \<times> hub_table" where
  "bind_hub_add lb h m = (lb\<lparr>lb_hubs := h # lb_hubs lb\<rparr>, hub_set_bind (lb_type lb) (lb_addr lb) h m)"

text \<open>
  The first loop of \<^verbatim>\<open>bind_add\<close>: the first bind of the list that can be re-used or
  that clashes (TLS against TCP on the same port and an overlapping address).
\<close>

datatype bind_scan = Scan_reuse nat | Scan_conflict | Scan_none

fun bind_add_scan :: "lbt \<Rightarrow> 32 word \<Rightarrow> 16 word \<Rightarrow> nat \<Rightarrow> listen_bind list \<Rightarrow> bind_scan" where
  "bind_add_scan ty ip port k [] = Scan_none"
| "bind_add_scan ty ip port k (i # c) =
     (if lb_type i = ty \<and> (lb_ip4 i = ip \<or> lb_ip4 i = 0) \<and> lb_port i = port then Scan_reuse k
      else if ((ty = LBT_TLS \<and> lb_type i = LBT_TCP) \<or> (ty = LBT_TCP \<and> lb_type i = LBT_TLS))
              \<and> lb_port i = port \<and> (lb_ip4 i = 0 \<or> ip = 0 \<or> lb_ip4 i = ip) then Scan_conflict
      else bind_add_scan ty ip port (Suc k) c)"

text \<open>
  The merge loop of \<^verbatim>\<open>bind_add\<close>, run for a new wildcard bind: every bind of the same
  port and type hands its hubs over, one \<^verbatim>\<open>bind_hub_add\<close> each, and leaves the list.
\<close>

fun bind_hubs_move :: "64 word list \<Rightarrow> listen_bind \<Rightarrow> hub_table \<Rightarrow> listen_bind \<times> hub_table" where
  "bind_hubs_move [] lb m = (lb, m)"
| "bind_hubs_move (h # hs) lb m =
     (case bind_hub_add lb h m of (lb', m') \<Rightarrow> bind_hubs_move hs lb' m')"

fun bind_add_merge ::
  "listen_bind list \<Rightarrow> listen_bind \<Rightarrow> hub_table \<Rightarrow> listen_bind list \<times> listen_bind \<times> hub_table" where
  "bind_add_merge [] lb m = ([], lb, m)"
| "bind_add_merge (i # c) lb m =
     (if lb_port i \<noteq> lb_port lb \<or> lb_type i \<noteq> lb_type lb then
        (case bind_add_merge c lb m of (c', lb', m') \<Rightarrow> (i # c', lb', m'))
      else
        (case bind_hubs_move (lb_hubs i) lb m of (lb1, m1) \<Rightarrow> bind_add_merge c lb1 m1))"

text \<open>
  \<^verbatim>\<open>bind_add(b, type, ip, port)\<close>; \<open>b\<close> is the hub's id. The first statement replaces a
  zero port by the random port of the type.
\<close>

definition bind_add_port :: "listen_state \<Rightarrow> lbt \<Rightarrow> 16 word \<Rightarrow> 16 word" where
  "bind_add_port s ty port =
     (if port = 0 then
        (if ty = LBT_TCP then random_tcp_port s
         else if ty = LBT_UDP then random_udp_port s
         else random_tls_port s)
      else port)"

definition bind_add :: "64 word \<Rightarrow> lbt \<Rightarrow> 32 word \<Rightarrow> 16 word \<Rightarrow> listen_state \<Rightarrow> listen_state" where
  "bind_add b ty ip port0 s =
     (let port = bind_add_port s ty port0 in
      case bind_add_scan ty ip port 0 (listen_binds s) of
        Scan_reuse k \<Rightarrow>
          (case bind_hub_add (listen_binds s ! k) b (listen_hub_binds s) of
             (i', m') \<Rightarrow> s\<lparr>listen_binds := (listen_binds s)[k := i'], listen_hub_binds := m'\<rparr>)
      | Scan_conflict \<Rightarrow> listen_stop (s\<lparr>os_calls := os_calls s @ [Ui_passive_message]\<rparr>)
      | Scan_none \<Rightarrow>
          (let lb0 = \<lparr>lb_addr = next_addr s, lb_type = ty, lb_port = port, lb_ip4 = ip,
                      lb_src = 0, lb_sock = 0, lb_hubs = []\<rparr> in
           case bind_hub_add lb0 b (listen_hub_binds s) of
             (lb1, m1) \<Rightarrow>
               (case (if lb_ip4 lb1 = 0 then bind_add_merge (listen_binds s) lb1 m1
                      else (listen_binds s, lb1, m1)) of
                  (c', lb2, m2) \<Rightarrow>
                    s\<lparr>listen_binds := lb2 # c', listen_hub_binds := m2,
                      next_addr := Suc (next_addr s)\<rparr>)))"

text \<open>
  \<^verbatim>\<open>bind_create(b)\<close> for the bind at position \<open>k\<close> of \<^verbatim>\<open>listen_binds\<close>. The source
  asks for \<^verbatim>\<open>SOCK_STREAM\<close> when the bind is UDP and for \<^verbatim>\<open>SOCK_DGRAM\<close> otherwise, and
  \<^verbatim>\<open>g_return_if_fail(sock < 0)\<close> returns as soon as the descriptor is not negative.
\<close>

definition bind_create :: "os_answers \<Rightarrow> nat \<Rightarrow> listen_state \<Rightarrow> listen_state" where
  "bind_create os k s =
     (let b = listen_binds s ! k;
          sock = os_socket os (lb_type b) (lb_ip4 b) (lb_port b);
          s1 = s\<lparr>os_calls := os_calls s
                  @ [Sys_socket (if lb_type b = LBT_UDP then SOCK_STREAM else SOCK_DGRAM)]\<rparr>
      in if \<not> sock < 0 then s1
         else
           (let s2 = s1\<lparr>os_calls := os_calls s1
                        @ [Sys_setsockopt_reuseaddr sock, Sys_fcntl_nonblock sock,
                           Sys_bind sock (lb_ip4 b) (lb_port b)]\<rparr>;
                err1 = os_bind_errno os sock (lb_ip4 b) (lb_port b);
                do_listen = (err1 = 0 \<and> lb_type b \<noteq> LBT_UDP);
                s3 = (if do_listen then s2\<lparr>os_calls := os_calls s2 @ [Sys_listen sock 5]\<rparr> else s2);
                err = (if do_listen then os_listen_errno os sock else err1)
            in if err \<noteq> 0 then
                 listen_stop (s3\<lparr>os_calls := os_calls s3 @ [Ui_passive_message, Sys_close sock]\<rparr>)
               else
                 s3\<lparr>listen_binds := (listen_binds s3)
                      [k := b\<lparr>lb_sock := sock, lb_src := os_source_id os sock\<rparr>],
                    os_calls := os_calls s3 @ [Src_attach sock]\<rparr>))"

text \<open>
  \<^verbatim>\<open>listen_refresh\<close>. A tab of \<^verbatim>\<open>ui_tabs\<close> is what the loop reads of it: whether it is a
  hub tab, the hub's address and id, and the hub's settings as \<^verbatim>\<open>var_get\<close> returns
  them (\<^verbatim>\<open>local_address\<close> already packed). \<^verbatim>\<open>var_get_int\<close> returns an int, which the
  \<^verbatim>\<open>guint16\<close> parameter of \<^verbatim>\<open>bind_add\<close> cuts to 16 bits. \<^verbatim>\<open>VAR_TLSP_DISABLE\<close> is not
  defined in these sources; it is 0, as \<^verbatim>\<open>CONF_TLSP_DISABLE\<close> in db.c.
\<close>

record ui_tab =
  tab_is_hub :: bool
  tab_hub_ip4 :: "32 word"
  tab_hub_id :: "64 word"
  var_active :: bool
  var_local_address :: "32 word"
  var_active_port :: int
  var_active_udp_port :: int
  var_tls_policy :: int
  var_active_tls_port :: int

definition VAR_TLSP_DISABLE :: int where
  "VAR_TLSP_DISABLE = 0"

text \<open>\<^verbatim>\<open>!g_hash_table_size(listen_hub_binds)\<close>.\<close>

definition hubs_empty :: "listen_state \<Rightarrow> bool" where
  "hubs_empty s = (length (listen_hub_binds s) = 0)"

fun listen_refresh_tabs :: "ui_tab list \<Rightarrow> listen_state \<Rightarrow> listen_state" where
  "listen_refresh_tabs [] s = s"
| "listen_refresh_tabs (t # l) s =
     (if \<not> tab_is_hub t \<or> tab_hub_ip4 t = 0 \<or> \<not> var_active t then listen_refresh_tabs l s
      else
        (let b = tab_hub_id t;
             s0 = s\<lparr>listen_hub_binds :=
                      AList.update b \<lparr>hb_tcp = None, hb_udp = None, hb_tls = None\<rparr>
                        (listen_hub_binds s)\<rparr>;
             localip = var_local_address t;
             s1 = bind_add b LBT_TCP localip (word_of_int (var_active_port t)) s0
         in if hubs_empty s1 then s1
            else
              (let s2 = bind_add b LBT_UDP localip (word_of_int (var_active_udp_port t)) s1
               in if hubs_empty s2 then s2
                  else if var_tls_policy t > VAR_TLSP_DISABLE then
                    (let s3 = bind_add b LBT_TLS localip (word_of_int (var_active_tls_port t)) s2
                     in if hubs_empty s3 then s3 else listen_refresh_tabs l s3)
                  else listen_refresh_tabs l s2)))"

text \<open>
  The last loop of \<^verbatim>\<open>listen_refresh\<close> walks the list and stops when a \<^verbatim>\<open>bind_create\<close>
  has emptied it; \<open>ks\<close> are the positions still to visit.
\<close>

fun listen_refresh_create :: "os_answers \<Rightarrow> nat list \<Rightarrow> listen_state \<Rightarrow> listen_state" where
  "listen_refresh_create os [] s = s"
| "listen_refresh_create os (k # ks) s =
     (let s' = bind_create os k s
      in if listen_binds s' = [] then s' else listen_refresh_create os ks s')"

definition listen_refresh :: "os_answers \<Rightarrow> ui_tab list \<Rightarrow> listen_state \<Rightarrow> listen_state" where
  "listen_refresh os tabs s =
     (let s1 = listen_refresh_tabs tabs (listen_stop s)
      in listen_refresh_create os [0 ..< length (listen_binds s1)] s1)"




text \<open>
  A concrete configuration: one active hub that leaves its TCP and UDP ports to the
  random choice (TLS disabled), an operating system on which every call succeeds
  (\<^verbatim>\<open>socket()\<close> returns descriptor 5), a generator that answers with a wanted value
  when the bounds allow it, and the state after a start-up that drew 4000, 4000
  (rejected for TLS), 5000 and 4000.
\<close>

definition example_tab :: ui_tab where
  "example_tab =
     \<lparr>tab_is_hub = True, tab_hub_ip4 = 0x0A000001, tab_hub_id = 1, var_active = True,
      var_local_address = 0, var_active_port = 0, var_active_udp_port = 0,
      var_tls_policy = 0, var_active_tls_port = 0\<rparr>"

definition example_os :: os_answers where
  "example_os =
     \<lparr>os_socket = (\<lambda>ty ip port. 5), os_bind_errno = (\<lambda>fd ip port. 0),
      os_listen_errno = (\<lambda>fd. 0), os_source_id = (\<lambda>fd. 9)\<rparr>"


definition example_listen_state :: listen_state where
  "example_listen_state =
     \<lparr>listen_binds = [], listen_hub_binds = [],
      random_tcp_port = 4000, random_udp_port = 4000, random_tls_port = 5000,
      next_addr = 1, os_calls = []\<rparr>"

section \<open>The download queue (dl_t, dl_user_t, dl_user_dl_t)\<close>

text \<open>The \<^verbatim>\<open>DLP_*\<close>, \<^verbatim>\<open>DLE_*\<close> and \<^verbatim>\<open>DLU_*\<close> constants, and the two size thresholds.\<close>

definition DLP_ERR :: int where "DLP_ERR = - 65"
definition DLP_OFF :: int where "DLP_OFF = - 64"
definition DLP_MED :: int where "DLP_MED = 0"

definition DLE_NONE :: int where "DLE_NONE = 0"

definition DLU_NCO :: int where "DLU_NCO = 0"
definition DLU_ACT :: int where "DLU_ACT = 3"

definition DL_MINTTHLSIZE :: nat where "DL_MINTTHLSIZE = 2048 * 1024"
definition DL_MINBLOCKSIZE :: nat where "DL_MINBLOCKSIZE = 1024 * 1024"

text \<open>
  \<^verbatim>\<open>struct dl_t\<close>. The \<^verbatim>\<open>guint64\<close> fields \<^verbatim>\<open>size\<close>, \<^verbatim>\<open>have\<close> and \<^verbatim>\<open>hash_block\<close> are
  natural numbers: no byte count of the model comes near \<^verbatim>\<open>2^64\<close>. \<^verbatim>\<open>u\<close> is the array of
  \<^verbatim>\<open>GSequenceIter\<close> pointers, each the address of a \<^verbatim>\<open>dl_user_dl_t\<close> in its user's queue.
  \<^verbatim>\<open>hash_tth\<close> is the running TTH context of the block being received, or NULL; the
  context is modelled by the bytes fed to it since \<^verbatim>\<open>tth_init\<close>.
\<close>

type_synonym tth = "byte list"
type_synonym uid = "64 word"

record dl_t =
  dl_islist :: bool
  dl_hastthl :: bool
  dl_active :: bool
  dl_flopen :: bool
  dl_flmatch :: bool
  dl_dlthread :: bool
  dl_delete :: bool
  dl_prio :: int
  dl_error :: int
  dl_incfd :: int
  dl_error_msg :: "string option"
  dl_flsel :: "string option"
  dl_hash :: tth
  dl_u :: "nat list"
  dl_size :: nat
  dl_have :: nat
  dl_inc :: string
  dl_dest :: string
  dl_hash_block :: nat
  dl_hash_tth :: "byte list option"

text \<open>\<^verbatim>\<open>struct dl_user_dl_t\<close>: \<^verbatim>\<open>dl\<close> is the address of the download, \<^verbatim>\<open>u\<close> the user.\<close>

record dl_user_dl_t =
  dud_dl :: nat
  dud_u :: uid
  dud_error :: int
  dud_error_msg :: "string option"

text \<open>
  \<^verbatim>\<open>struct dl_user_t\<close>: \<^verbatim>\<open>queue\<close> is the \<^verbatim>\<open>GSequence\<close> of \<^verbatim>\<open>dl_user_dl_t\<close>, kept in the
  order of \<^verbatim>\<open>dl_user_dl_sort\<close>; \<^verbatim>\<open>active\<close> points at one of them or is NULL.
\<close>

record dl_user_t =
  du_state :: int
  du_timeout :: int
  du_uid :: uid
  du_cc :: "nat option"
  du_queue :: "nat list"
  du_active :: "nat option"

text \<open>What the queue code asks of the parts of the program that are not modelled.\<close>

datatype dl_call =
    Db_dl_insert tth
  | Db_dl_adduser tth uid
  | Db_dl_rm tth
  | Db_dl_rmuser uid "tth option"
  | Cc_disconnect uid
  | Dl_close int
  | Dl_unlink string

text \<open>
  The globals of the file and the heap: \<^verbatim>\<open>dl_queue\<close> maps a hash to the address of its
  \<^verbatim>\<open>dl_t\<close>, \<^verbatim>\<open>queue_users\<close> a user id to its \<^verbatim>\<open>dl_user_t\<close>; \<open>dls\<close> and \<open>duds\<close> hold
  the allocated \<^verbatim>\<open>dl_t\<close> and \<^verbatim>\<open>dl_user_dl_t\<close> structs by address. Each table is an
  association list with one entry per key, read with \<open>map_of\<close>.
\<close>

record dl_state =
  dls :: "(nat \<times> dl_t) list"
  duds :: "(nat \<times> dl_user_dl_t) list"
  dl_queue :: "(tth \<times> nat) list"
  queue_users :: "(uid \<times> dl_user_t) list"
  dl_next_addr :: nat
  dl_queue_needstart :: bool
  dl_calls :: "dl_call list"

text \<open>
  Settings and helpers from outside the file: the configured directories, GLib's
  \<^verbatim>\<open>g_build_filename\<close>, \<^verbatim>\<open>base32_encode\<close>, the name of a user's file list, the Tiger hash
  of a user id, the TTH of a block of data, \<^verbatim>\<open>tth_blocksize\<close>, and the TTHL blob the
  database holds for a root hash.
\<close>

record dl_env =
  download_dir :: string
  incoming_dir :: string
  db_dir :: string
  build_filename :: "string \<Rightarrow> string \<Rightarrow> string"
  base32_encode :: "tth \<Rightarrow> string"
  fl_filename :: "uid \<Rightarrow> string"
  tiger_uid :: "uid \<Rightarrow> tth"
  tth_of :: "byte list \<Rightarrow> tth"
  tth_blocksize :: "nat \<Rightarrow> nat \<Rightarrow> nat"
  db_tthl :: "tth \<rightharpoonup> byte list"
  db_substr_far :: "byte list \<Rightarrow> int \<Rightarrow> byte list"

text \<open>The macro \<^verbatim>\<open>dl_user_dl_enabled(dud)\<close>; \<open>dl\<close> is \<^verbatim>\<open>dud->dl\<close>.\<close>

definition dl_user_dl_enabled :: "dl_user_dl_t \<Rightarrow> dl_t \<Rightarrow> bool" where
  "dl_user_dl_enabled dud dl =
     (dud_error dud = 0 \<and> dl_prio dl > DLP_OFF
      \<and> ((dl_size dl = 0 \<and> dl_islist dl) \<or> dl_size dl \<noteq> dl_have dl))"

text \<open>
  \<^verbatim>\<open>strcmp\<close>: bytes compared as unsigned values; only the sign of the result is
  specified by C, so the result is -1, 0 or 1.
\<close>

fun strcmp :: "string \<Rightarrow> string \<Rightarrow> int" where
  "strcmp [] [] = 0"
| "strcmp [] (y # ys) = - 1"
| "strcmp (x # xs) [] = 1"
| "strcmp (x # xs) (y # ys) =
     (if x = y then strcmp xs ys
      else if (of_char x :: nat) < of_char y then - 1 else 1)"

text \<open>\<^verbatim>\<open>dl_user_dl_sort(a, b)\<close>; \<open>dx\<close> and \<open>dy\<close> are \<^verbatim>\<open>x->dl\<close> and \<^verbatim>\<open>y->dl\<close>.\<close>

definition dl_user_dl_sort :: "dl_user_dl_t \<Rightarrow> dl_t \<Rightarrow> dl_user_dl_t \<Rightarrow> dl_t \<Rightarrow> int" where
  "dl_user_dl_sort x dx y dy =
     (if dl_user_dl_enabled x dx \<and> \<not> dl_user_dl_enabled y dy then - 1
      else if \<not> dl_user_dl_enabled x dx \<and> dl_user_dl_enabled y dy then 1
      else if dl_islist dx \<and> \<not> dl_islist dy then - 1
      else if \<not> dl_islist dx \<and> dl_islist dy then 1
      else if dl_prio dx > dl_prio dy then - 1
      else if dl_prio dx < dl_prio dy then 1
      else strcmp (dl_dest dx) (dl_dest dy))"

text \<open>
  The comparison on addresses, as the \<^verbatim>\<open>GSequence\<close> calls it. (An address that is not
  allocated cannot be in a queue; the comparison is 0 there.)
\<close>

definition dud_sort :: "dl_state \<Rightarrow> nat \<Rightarrow> nat \<Rightarrow> int" where
  "dud_sort s a b =
     (case (map_of (duds s) a, map_of (duds s) b) of
        (Some x, Some y) \<Rightarrow>
          (case (map_of (dls s) (dud_dl x), map_of (dls s) (dud_dl y)) of
             (Some dx, Some dy) \<Rightarrow> dl_user_dl_sort x dx y dy
           | _ \<Rightarrow> 0)
      | _ \<Rightarrow> 0)"

text \<open>
  \<^verbatim>\<open>g_sequence_insert_sorted\<close> puts the new item before the first item of the (sorted)
  sequence that compares greater. \<^verbatim>\<open>g_ptr_array_remove_index_fast\<close> moves the last
  element into the freed slot.
\<close>

fun g_sequence_insert_sorted :: "(nat \<Rightarrow> nat \<Rightarrow> int) \<Rightarrow> nat \<Rightarrow> nat list \<Rightarrow> nat list" where
  "g_sequence_insert_sorted cmp d [] = [d]"
| "g_sequence_insert_sorted cmp d (e # es) =
     (if cmp e d > 0 then d # e # es else e # g_sequence_insert_sorted cmp d es)"

definition g_ptr_array_remove_index_fast :: "nat \<Rightarrow> 'a list \<Rightarrow> 'a list" where
  "g_ptr_array_remove_index_fast i xs = butlast (xs[i := last xs])"

text \<open>\<^verbatim>\<open>dl_queue_start\<close> arms the 500 ms timer once.\<close>

definition dl_queue_start :: "dl_state \<Rightarrow> dl_state" where
  "dl_queue_start s = (if \<not> dl_queue_needstart s then s\<lparr>dl_queue_needstart := True\<rparr> else s)"

text \<open>
  \<^verbatim>\<open>dl_user_setstate(du, -1)\<close>, the call made after an item left \<^verbatim>\<open>du->queue\<close>: with
  \<^verbatim>\<open>state = -1\<close> every test on \<^verbatim>\<open>state >= 0\<close> fails, which leaves the end of the function:
  a user that is not connected and has an empty queue is freed, otherwise
  \<^verbatim>\<open>dl_queue_start\<close> is called.
\<close>

definition dl_user_setstate_removed :: "uid \<Rightarrow> dl_state \<Rightarrow> dl_state" where
  "dl_user_setstate_removed uid s =
     (case map_of (queue_users s) uid of
        None \<Rightarrow> s
      | Some du \<Rightarrow>
          if du_state du = DLU_NCO \<and> length (du_queue du) = 0
          then s\<lparr>queue_users := AList.delete uid (queue_users s)\<rparr>
          else dl_queue_start s)"

text \<open>
  \<^verbatim>\<open>dl_user_add(dl, uid, error, error_msg)\<close>; \<open>a\<close> is the address of \<^verbatim>\<open>dl\<close>. The guard
  \<^verbatim>\<open>g_return_if_fail(!dl->islist || dl->u->len == 0)\<close> comes first.
\<close>

definition dl_user_add :: "nat \<Rightarrow> uid \<Rightarrow> int \<Rightarrow> string option \<Rightarrow> dl_state \<Rightarrow> dl_state" where
  "dl_user_add a uid err err_msg s =
     (case map_of (dls s) a of
        None \<Rightarrow> s
      | Some dl \<Rightarrow>
          if \<not> (\<not> dl_islist dl \<or> length (dl_u dl) = 0) then s
          else
            (let du = (case map_of (queue_users s) uid of
                         Some du \<Rightarrow> du
                       | None \<Rightarrow> \<lparr>du_state = DLU_NCO, du_timeout = 0, du_uid = uid, du_cc = None,
                                  du_queue = [], du_active = None\<rparr>);
                 d = dl_next_addr s;
                 s1 = s\<lparr>duds := AList.update d \<lparr>dud_dl = a, dud_u = uid, dud_error = err,
                                                  dud_error_msg = err_msg\<rparr> (duds s),
                        dl_next_addr := Suc d\<rparr>
             in s1\<lparr>queue_users :=
                      AList.update uid
                        (du\<lparr>du_queue := g_sequence_insert_sorted (dud_sort s1) d (du_queue du)\<rparr>)
                        (queue_users s1),
                    dls := AList.update a (dl\<lparr>dl_u := dl_u dl @ [d]\<rparr>) (dls s1)\<rparr>))"

text \<open>
  \<^verbatim>\<open>dl_user_rm(dl, i)\<close>. \<^verbatim>\<open>cc_disconnect\<close> belongs to the peer-session code, which is
  not among the sources: the call is recorded, and the two assignments that follow it
  in the source are made. (An index past the array or a pointer to a freed struct has
  no meaning in C; the model then only drops the slot.)
\<close>

definition dl_user_rm :: "nat \<Rightarrow> nat \<Rightarrow> dl_state \<Rightarrow> dl_state" where
  "dl_user_rm a i s =
     (case map_of (dls s) a of
        None \<Rightarrow> s
      | Some dl \<Rightarrow>
          if i \<ge> length (dl_u dl) then s
          else
            (let dudi = dl_u dl ! i;
                 u' = g_ptr_array_remove_index_fast i (dl_u dl)
             in case map_of (duds s) dudi of
                  None \<Rightarrow> s\<lparr>dls := AList.update a (dl\<lparr>dl_u := u'\<rparr>) (dls s)\<rparr>
                | Some dud \<Rightarrow>
                    (case map_of (queue_users s) (dud_u dud) of
                       None \<Rightarrow> s\<lparr>dls := AList.update a (dl\<lparr>dl_u := u'\<rparr>) (dls s),
                                  duds := AList.delete dudi (duds s)\<rparr>
                     | Some du \<Rightarrow>
                         (let act = (du_active du = Some dudi);
                              du1 = (if act then du\<lparr>du_active := None\<rparr> else du);
                              dl1 = (if act then dl\<lparr>dl_active := False\<rparr> else dl);
                              s1 = (if act then s\<lparr>dl_calls := dl_calls s @ [Cc_disconnect (dud_u dud)]\<rparr>
                                    else s);
                              s2 = s1\<lparr>queue_users :=
                                        AList.update (dud_u dud)
                                          (du1\<lparr>du_queue := removeAll dudi (du_queue du1)\<rparr>)
                                          (queue_users s1),
                                      duds := AList.delete dudi (duds s1),
                                      dls := AList.update a (dl1\<lparr>dl_u := u'\<rparr>) (dls s1)\<rparr>
                          in dl_user_setstate_removed (dud_u dud) s2))))"

text \<open>
  The loop \<^verbatim>\<open>while(dl->u->len > 0) dl_user_rm(dl, 0)\<close> of \<^verbatim>\<open>dl_queue_rm\<close>. It ends
  because each \<^verbatim>\<open>dl_user_rm\<close> shortens \<^verbatim>\<open>dl->u\<close> by one.
\<close>

lemma dl_user_rm_shortens:
  "map_of (dls s) a = Some dl \<Longrightarrow> i < length (dl_u dl) \<Longrightarrow>
     \<exists>dl'. map_of (dls (dl_user_rm a i s)) a = Some dl'
          \<and> length (dl_u dl') = length (dl_u dl) - 1"
  by (auto simp: dl_user_rm_def Let_def dl_user_setstate_removed_def dl_queue_start_def
      g_ptr_array_remove_index_fast_def update_conv' split: option.splits)

function dl_queue_rm_users :: "nat \<Rightarrow> dl_state \<Rightarrow> dl_state" where
  "dl_queue_rm_users a s =
     (case map_of (dls s) a of
        None \<Rightarrow> s
      | Some dl \<Rightarrow> if length (dl_u dl) > 0 then dl_queue_rm_users a (dl_user_rm a 0 s) else s)"
  by pat_completeness auto
termination
proof (relation "measure (\<lambda>(a, s). case map_of (dls s) a of None \<Rightarrow> 0 | Some dl \<Rightarrow> length (dl_u dl))")
  show "wf (measure (\<lambda>(a, s). case map_of (dls s) a of None \<Rightarrow> 0 | Some dl \<Rightarrow> length (dl_u dl)))"
    by simp
next
  fix a :: nat and s :: dl_state and dl :: dl_t
  assume "map_of (dls s) a = Some dl" "0 < length (dl_u dl)"
  with dl_user_rm_shortens [of s a dl 0]
  show "((a, dl_user_rm a 0 s), (a, s))
        \<in> measure (\<lambda>(a, s). case map_of (dls s) a of None \<Rightarrow> 0 | Some dl \<Rightarrow> length (dl_u dl))"
    by auto
qed

declare dl_queue_rm_users.simps [simp del]

text \<open>
  \<^verbatim>\<open>dl_queue_rm(dl)\<close>: marks the item deleted, removes its users, takes it out of
  \<^verbatim>\<open>dl_queue\<close>, and, unless the receive thread is still running, removes it from the
  database, closes and unlinks the incoming file and frees the struct. Whether the
  incoming file exists (\<^verbatim>\<open>g_file_test\<close>) is the input \<open>inc_exists\<close>.
\<close>

definition dl_queue_rm :: "bool \<Rightarrow> nat \<Rightarrow> dl_state \<Rightarrow> dl_state" where
  "dl_queue_rm inc_exists a s =
     (case map_of (dls s) a of
        None \<Rightarrow> s
      | Some dl0 \<Rightarrow>
          (let s1 = dl_queue_rm_users a (s\<lparr>dls := AList.update a (dl0\<lparr>dl_delete := True\<rparr>) (dls s)\<rparr>)
           in case map_of (dls s1) a of
                None \<Rightarrow> s1
              | Some dl \<Rightarrow>
                  (let s2 = (if map_of (dl_queue s1) (dl_hash dl) \<noteq> None
                             then s1\<lparr>dl_queue := AList.delete (dl_hash dl) (dl_queue s1)\<rparr> else s1)
                   in if dl_dlthread dl then s2
                      else s2\<lparr>dl_calls := dl_calls s2
                                 @ (if \<not> dl_islist dl then [Db_dl_rm (dl_hash dl)] else [])
                                 @ (if dl_incfd dl > 0 then [Dl_close (dl_incfd dl)] else [])
                                 @ (if inc_exists then [Dl_unlink (dl_inc dl)] else []),
                              dls := AList.delete a (dls s2)\<rparr>)))"

text \<open>
  \<^verbatim>\<open>g_slice_new0(dl_t)\<close>, and \<^verbatim>\<open>dl_queue_insert(dl, init)\<close>, which returns nothing in C;
  the model returns the address it gave the struct.
\<close>

definition dl_new0 :: dl_t where
  "dl_new0 =
     \<lparr>dl_islist = False, dl_hastthl = False, dl_active = False, dl_flopen = False,
      dl_flmatch = False, dl_dlthread = False, dl_delete = False, dl_prio = 0, dl_error = 0,
      dl_incfd = 0, dl_error_msg = None, dl_flsel = None, dl_hash = [], dl_u = [],
      dl_size = 0, dl_have = 0, dl_inc = [], dl_dest = [], dl_hash_block = 0,
      dl_hash_tth = None\<rparr>"

definition dl_queue_insert :: "dl_env \<Rightarrow> dl_t \<Rightarrow> bool \<Rightarrow> dl_state \<Rightarrow> nat \<times> dl_state" where
  "dl_queue_insert env dl init s =
     (let dl1 = (if \<not> dl_islist dl \<and> \<not> dl_hastthl dl \<and> dl_size dl \<le> DL_MINTTHLSIZE
                 then dl\<lparr>dl_hastthl := True, dl_hash_block := DL_MINTTHLSIZE\<rparr> else dl);
          dl2 = dl1\<lparr>dl_inc := build_filename env (incoming_dir env) (base32_encode env (dl_hash dl1)),
                    dl_u := []\<rparr>;
          a = dl_next_addr s;
          s1 = s\<lparr>dls := AList.update a dl2 (dls s),
                 dl_queue := AList.update (dl_hash dl2) a (dl_queue s),
                 dl_next_addr := Suc a\<rparr>;
          s2 = (if \<not> dl_islist dl2 \<and> \<not> init
                then s1\<lparr>dl_calls := dl_calls s1 @ [Db_dl_insert (dl_hash dl2)]\<rparr> else s1)
      in (a, if \<not> init then dl_queue_start s2 else s2))"

text \<open>
  \<^verbatim>\<open>dl_queue_addlist(u, sel, parent, open, match)\<close>; of the hub user \<^verbatim>\<open>u\<close> the function
  reads \<^verbatim>\<open>hasinfo\<close> and \<^verbatim>\<open>uid\<close>.
\<close>

definition dl_queue_addlist ::
  "dl_env \<Rightarrow> bool \<Rightarrow> uid \<Rightarrow> string option \<Rightarrow> bool \<Rightarrow> bool \<Rightarrow> dl_state \<Rightarrow> dl_state" where
  "dl_queue_addlist env hasinfo uid sel opn mtch s =
     (if \<not> hasinfo then s
      else
        (let h = tiger_uid env uid
         in case map_of (dl_queue s) h of
              Some dup \<Rightarrow>
                (case map_of (dls s) dup of
                   None \<Rightarrow> s
                 | Some d \<Rightarrow>
                     s\<lparr>dls := AList.update dup (d\<lparr>dl_flopen := (opn \<or> dl_flopen d),
                                                    dl_flmatch := (mtch \<or> dl_flmatch d)\<rparr>) (dls s)\<rparr>)
            | None \<Rightarrow>
                (let dl = dl_new0\<lparr>dl_islist := True, dl_flsel := sel, dl_flopen := opn,
                                  dl_flmatch := mtch, dl_hash := h,
                                  dl_dest := build_filename env (build_filename env (db_dir env) ''fl'')
                                               (fl_filename env uid)\<rparr>
                 in case dl_queue_insert env dl False s of
                      (a, s1) \<Rightarrow> dl_user_add a uid 0 None s1)))"

text \<open>\<^verbatim>\<open>dl_queue_addfile(uid, hash, size, fn)\<close>.\<close>

definition dl_queue_addfile ::
  "dl_env \<Rightarrow> uid \<Rightarrow> tth \<Rightarrow> nat \<Rightarrow> string \<Rightarrow> dl_state \<Rightarrow> bool \<times> dl_state" where
  "dl_queue_addfile env uid h sz fn s =
     (if map_of (dl_queue s) h \<noteq> None then (False, s)
      else
        (let dl = dl_new0\<lparr>dl_hash := h, dl_size := sz,
                          dl_dest := build_filename env (download_dir env) fn\<rparr>
         in case dl_queue_insert env dl False s of
              (a, s1) \<Rightarrow>
                (let s2 = dl_user_add a uid 0 None s1
                 in (True, s2\<lparr>dl_calls := dl_calls s2 @ [Db_dl_adduser h uid]\<rparr>))))"

text \<open>
  \<^verbatim>\<open>dl_queue_matchfile(uid, tth)\<close>: -1 when the file is not queued, 0 when the user is
  already among its sources, 1 otherwise.
\<close>

definition dud_user_is :: "dl_state \<Rightarrow> uid \<Rightarrow> nat \<Rightarrow> bool" where
  "dud_user_is s uid d = (case map_of (duds s) d of None \<Rightarrow> False | Some dud \<Rightarrow> dud_u dud = uid)"

definition dl_queue_matchfile :: "uid \<Rightarrow> tth \<Rightarrow> dl_state \<Rightarrow> int \<times> dl_state" where
  "dl_queue_matchfile uid h s =
     (case map_of (dl_queue s) h of
        None \<Rightarrow> (- 1, s)
      | Some a \<Rightarrow>
          (case map_of (dls s) a of
             None \<Rightarrow> (- 1, s)
           | Some dl \<Rightarrow>
               if list_ex (dud_user_is s uid) (dl_u dl) then (0, s)
               else
                 (let s1 = dl_user_add a uid 0 None s;
                      s2 = s1\<lparr>dl_calls := dl_calls s1 @ [Db_dl_adduser (dl_hash dl) uid]\<rparr>
                  in (1, dl_queue_start s2))))"

text \<open>
  \<^verbatim>\<open>dl_queue_rmuser(uid, tth)\<close>. With a hash, the first slot of \<^verbatim>\<open>dl->u\<close> that belongs to
  the user is removed; without one, the loop walks the user's queue and removes each
  item from its download. In both, a file list left without a user is removed from the
  queue.
\<close>

fun find_index_from :: "('a \<Rightarrow> bool) \<Rightarrow> nat \<Rightarrow> 'a list \<Rightarrow> nat option" where
  "find_index_from P i [] = None"
| "find_index_from P i (x # xs) = (if P x then Some i else find_index_from P (Suc i) xs)"

definition dl_queue_rm_if_empty_list :: "bool \<Rightarrow> nat \<Rightarrow> dl_state \<Rightarrow> dl_state" where
  "dl_queue_rm_if_empty_list inc_exists a s =
     (case map_of (dls s) a of
        None \<Rightarrow> s
      | Some dl \<Rightarrow> if dl_islist dl \<and> length (dl_u dl) = 0 then dl_queue_rm inc_exists a s else s)"

definition dl_queue_rmuser_one :: "bool \<Rightarrow> uid \<Rightarrow> nat \<Rightarrow> dl_state \<Rightarrow> dl_state" where
  "dl_queue_rmuser_one inc_exists uid a s =
     (case map_of (dls s) a of
        None \<Rightarrow> s
      | Some dl \<Rightarrow>
          dl_queue_rm_if_empty_list inc_exists a
            (case find_index_from (dud_user_is s uid) 0 (dl_u dl) of
               None \<Rightarrow> s
             | Some i \<Rightarrow> dl_user_rm a i s))"

fun dl_queue_rmuser_all :: "bool \<Rightarrow> nat list \<Rightarrow> dl_state \<Rightarrow> dl_state" where
  "dl_queue_rmuser_all inc_exists [] s = s"
| "dl_queue_rmuser_all inc_exists (i # n) s =
     (case map_of (duds s) i of
        None \<Rightarrow> dl_queue_rmuser_all inc_exists n s
      | Some dud \<Rightarrow>
          (case map_of (dls s) (dud_dl dud) of
             None \<Rightarrow> dl_queue_rmuser_all inc_exists n s
           | Some dl \<Rightarrow>
               dl_queue_rmuser_all inc_exists n
                 (dl_queue_rm_if_empty_list inc_exists (dud_dl dud)
                    (case find_index_from (\<lambda>d. d = i) 0 (dl_u dl) of
                       None \<Rightarrow> s
                     | Some j \<Rightarrow> dl_user_rm (dud_dl dud) j s))))"

definition dl_queue_rmuser :: "bool \<Rightarrow> uid \<Rightarrow> tth option \<Rightarrow> dl_state \<Rightarrow> dl_state" where
  "dl_queue_rmuser inc_exists uid h s =
     (let dl = (case h of None \<Rightarrow> None | Some t \<Rightarrow> map_of (dl_queue s) t)
      in case map_of (queue_users s) uid of
           None \<Rightarrow> s
         | Some du \<Rightarrow>
             if h \<noteq> None \<and> dl = None then s
             else
               (let s1 = (case dl of
                            Some a \<Rightarrow> dl_queue_rmuser_one inc_exists uid a s
                          | None \<Rightarrow> dl_queue_rmuser_all inc_exists (du_queue du) s)
                in s1\<lparr>dl_calls := dl_calls s1 @ [Db_dl_rmuser uid h]\<rparr>))"

text \<open>
  \<^verbatim>\<open>dl_load_dl\<close> and \<^verbatim>\<open>dl_load_dlu\<close>, which rebuild the queue from the database rows at
  start-up.
\<close>

definition dl_load_dl ::
  "dl_env \<Rightarrow> tth \<Rightarrow> nat \<Rightarrow> string option \<Rightarrow> int \<Rightarrow> int \<Rightarrow> string option \<Rightarrow> nat \<Rightarrow> dl_state
     \<Rightarrow> dl_state" where
  "dl_load_dl env h sz dest prio err err_msg tthllen s =
     (case dest of
        None \<Rightarrow> s
      | Some d \<Rightarrow>
          (let dl = dl_new0\<lparr>dl_hash := h, dl_size := sz, dl_prio := prio, dl_error := err,
                            dl_error_msg := err_msg, dl_dest := d\<rparr>;
               dl1 = (if dl_size dl < DL_MINTTHLSIZE
                      then dl\<lparr>dl_hastthl := True, dl_hash_block := DL_MINTTHLSIZE\<rparr>
                      else if tthllen \<noteq> 0
                      then dl\<lparr>dl_hastthl := True,
                              dl_hash_block := tth_blocksize env (dl_size dl) (tthllen div 24)\<rparr>
                      else dl)
           in snd (dl_queue_insert env dl1 True s)))"

definition dl_load_dlu :: "tth \<Rightarrow> uid \<Rightarrow> int \<Rightarrow> string option \<Rightarrow> dl_state \<Rightarrow> dl_state" where
  "dl_load_dlu h uid err err_msg s =
     (case map_of (dl_queue s) h of None \<Rightarrow> s | Some a \<Rightarrow> dl_user_add a uid err err_msg s)"

text \<open>
  \<^verbatim>\<open>db_dl_checkhash(root, num, hash)\<close> asks the database for a row of \<^verbatim>\<open>dl\<close> with this
  root whose \<^verbatim>\<open>substr(tthl, 1+(24*num), 24)\<close> equals the 24 bytes of \<^verbatim>\<open>hash\<close>; \<^verbatim>\<open>num\<close>
  is a C \<^verbatim>\<open>int\<close>, bound as a 32-bit integer, and SQLite computes the start in 64 bits.
  For a start from 1 up to \<^verbatim>\<open>2^31 - 1\<close> the substring is the 24 bytes that begin at byte
  \<^verbatim>\<open>start - 1\<close> of the blob. What SQLite's \<^verbatim>\<open>substr\<close> returns for any other start (a
  start of zero or below counts from the end, and a large one may be cut to 32 bits) is
  an input, \<open>db_substr_far\<close>. \<^verbatim>\<open>dl_recv_check(dl, num, tth)\<close> uses the root hash instead
  when the file is smaller than its block size.
\<close>

definition db_dl_checkhash :: "dl_env \<Rightarrow> tth \<Rightarrow> 32 word \<Rightarrow> tth \<Rightarrow> bool" where
  "db_dl_checkhash env root num h =
     (case db_tthl env root of
        None \<Rightarrow> False
      | Some blob \<Rightarrow>
          (let start = 1 + 24 * sint num
           in (if 0 < start \<and> start < 2147483648 then take 24 (drop (nat (start - 1)) blob)
               else db_substr_far env blob start) = take 24 h))"

definition dl_recv_check :: "dl_env \<Rightarrow> dl_t \<Rightarrow> 32 word \<Rightarrow> tth \<Rightarrow> bool" where
  "dl_recv_check env dl num t =
     (if dl_size dl < dl_hash_block dl
      then (if num \<noteq> 0 then False else take 24 t = take 24 (dl_hash dl))
      else db_dl_checkhash env (dl_hash dl) num t)"

section \<open>Receiving data (dl_recv_update, dl_recv_data)\<close>





record inc_file =
  f_data :: "byte list"
  f_pos :: nat


definition file_seek :: "inc_file \<Rightarrow> nat \<Rightarrow> inc_file" where
  "file_seek f n = f\<lparr>f_pos := n\<rparr>"

definition file_truncate :: "inc_file \<Rightarrow> nat \<Rightarrow> inc_file" where
  "file_truncate f n = f\<lparr>f_data := take n (f_data f) @ replicate (n - length (f_data f)) 0\<rparr>"







text \<open>
  A concrete setting for the examples: plain directories; a toy hash (the first 24
  bytes of the data, padded with zeros); a database that holds the two leaves of an
  8-byte file with 4-byte blocks, \<^verbatim>\<open>1 2 3 4\<close> and \<^verbatim>\<open>5 6 7 8\<close>, under the root hash
  \<^verbatim>\<open>3 ... 3\<close>; and the queue as \<^verbatim>\<open>dl_init_global\<close> leaves it when no download is
  stored.
\<close>

definition example_dl_env :: dl_env where
  "example_dl_env =
     \<lparr>download_dir = ''/dl'', incoming_dir = ''/inc'', db_dir = ''/db'',
      build_filename = (\<lambda>a b. a @ ''/'' @ b),
      base32_encode = map (\<lambda>b. char_of (65 + unat b mod 26)),
      fl_filename = (\<lambda>u. ''0000000000000007.xml.bz2''),
      tiger_uid = (\<lambda>u. replicate 24 (ucast u)),
      tth_of = (\<lambda>bs. take 24 (bs @ replicate 24 0)),
      tth_blocksize = (\<lambda>sz leaves. 1048576),
      db_tthl = map_of [(replicate 24 3,
                         [1, 2, 3, 4] @ replicate 20 0 @ [5, 6, 7, 8] @ replicate 20 0)],
      db_substr_far = (\<lambda>blob start. [])\<rparr>"

definition dl_state_empty :: dl_state where
  "dl_state_empty =
     \<lparr>dls = [], duds = [], dl_queue = [], queue_users = [],
      dl_next_addr = 1, dl_queue_needstart = False, dl_calls = []\<rparr>"

text \<open>
  The records and states the examples run through: a regular file of 100 bytes named
  \<^verbatim>\<open>a.txt\<close>, the file list of user 7, and the entries of user 7.
\<close>

definition example_file :: "tth \<Rightarrow> nat list \<Rightarrow> dl_t" where
  "example_file h us =
     dl_new0\<lparr>dl_hash := h, dl_size := 100, dl_dest := ''/dl/a.txt'', dl_hastthl := True,
             dl_hash_block := 2097152,
             dl_inc := ''/inc/'' @ base32_encode example_dl_env h, dl_u := us\<rparr>"

definition example_list :: "nat list \<Rightarrow> dl_t" where
  "example_list us =
     dl_new0\<lparr>dl_islist := True, dl_flopen := True, dl_hash := replicate 24 7,
             dl_dest := ''/db/fl/0000000000000007.xml.bz2'',
             dl_inc := ''/inc/'' @ base32_encode example_dl_env (replicate 24 7), dl_u := us\<rparr>"

definition example_dud :: "nat \<Rightarrow> dl_user_dl_t" where
  "example_dud a = \<lparr>dud_dl = a, dud_u = 7, dud_error = 0, dud_error_msg = None\<rparr>"

definition example_user :: "nat list \<Rightarrow> dl_user_t" where
  "example_user q =
     \<lparr>du_state = 0, du_timeout = 0, du_uid = 7, du_cc = None, du_queue = q, du_active = None\<rparr>"

definition example_one_file :: dl_state where
  "example_one_file =
     \<lparr>dls = [(1, example_file (replicate 24 1) [2])], duds = [(2, example_dud 1)],
      dl_queue = [(replicate 24 1, 1)], queue_users = [(7, example_user [2])],
      dl_next_addr = 3, dl_queue_needstart = True,
      dl_calls = [Db_dl_insert (replicate 24 1), Db_dl_adduser (replicate 24 1) 7]\<rparr>"

definition example_two_files :: dl_state where
  "example_two_files =
     \<lparr>dls = [(1, example_file (replicate 24 1) [2]), (3, example_file (replicate 24 2) [4])],
      duds = [(2, example_dud 1), (4, example_dud 3)],
      dl_queue = [(replicate 24 1, 1), (replicate 24 2, 3)],
      queue_users = [(7, example_user [2, 4])],
      dl_next_addr = 5, dl_queue_needstart = True,
      dl_calls = [Db_dl_insert (replicate 24 1), Db_dl_adduser (replicate 24 1) 7,
                  Db_dl_insert (replicate 24 2), Db_dl_adduser (replicate 24 2) 7]\<rparr>"

definition example_list_state :: dl_state where
  "example_list_state =
     \<lparr>dls = [(1, example_list [2])], duds = [(2, example_dud 1)],
      dl_queue = [(replicate 24 7, 1)], queue_users = [(7, example_user [2])],
      dl_next_addr = 3, dl_queue_needstart = True, dl_calls = []\<rparr>"




text \<open>
  Notions of the statements about the queue. A record of a small regular file: it has
  its TTHL flag set, a block size of 2 MiB, and its blocks are checked against the root
  hash, block 0 being the only one that can pass. The invariant of file lists: at most
  one user. The operations on the queue, as one type.
\<close>

definition small_file_record :: "dl_env \<Rightarrow> tth \<Rightarrow> nat \<Rightarrow> dl_t \<Rightarrow> bool" where
  "small_file_record env h sz dl =
     (\<not> dl_islist dl \<and> dl_hash dl = h \<and> dl_size dl = sz \<and> dl_hastthl dl
      \<and> dl_hash_block dl = 2097152
      \<and> (\<forall>num t. dl_recv_check env dl num t = (num = 0 \<and> take 24 t = take 24 h)))"

definition list_has_one_user :: "dl_state \<Rightarrow> bool" where
  "list_has_one_user s =
     (\<forall>a dl. map_of (dls s) a = Some dl \<longrightarrow> dl_islist dl \<longrightarrow> length (dl_u dl) \<le> 1)"

datatype dl_op =
    Op_addlist bool uid "string option" bool bool
  | Op_addfile uid tth nat string
  | Op_matchfile uid tth
  | Op_rmuser bool uid "tth option"
  | Op_rm bool nat
  | Op_load_dl tth nat "string option" int int "string option" nat
  | Op_load_dlu tth uid int "string option"
  | Op_user_add nat uid int "string option"
  | Op_user_rm nat nat

fun dl_apply :: "dl_env \<Rightarrow> dl_op \<Rightarrow> dl_state \<Rightarrow> dl_state" where
  "dl_apply env (Op_addlist hasinfo uid sel opn mtch) s =
     dl_queue_addlist env hasinfo uid sel opn mtch s"
| "dl_apply env (Op_addfile uid h sz fn) s = snd (dl_queue_addfile env uid h sz fn s)"
| "dl_apply env (Op_matchfile uid h) s = snd (dl_queue_matchfile uid h s)"
| "dl_apply env (Op_rmuser ie uid h) s = dl_queue_rmuser ie uid h s"
| "dl_apply env (Op_rm ie a) s = dl_queue_rm ie a s"
| "dl_apply env (Op_load_dl h sz dest prio err err_msg tthllen) s =
     dl_load_dl env h sz dest prio err err_msg tthllen s"
| "dl_apply env (Op_load_dlu h uid err err_msg) s = dl_load_dlu h uid err err_msg s"
| "dl_apply env (Op_user_add a uid err err_msg) s = dl_user_add a uid err err_msg s"
| "dl_apply env (Op_user_rm a i) s = dl_user_rm a i s"

section \<open>The persistence service (db_queue_process)\<close>

text \<open>The \<^verbatim>\<open>DBF_*\<close> flags, the \<^verbatim>\<open>DBQ_*\<close> type codes and SQLite's result codes.\<close>

definition DBF_NEXT :: int where "DBF_NEXT = 1"
definition DBF_LAST :: int where "DBF_LAST = 2"
definition DBF_SINGLE :: int where "DBF_SINGLE = 4"
definition DBF_NOCACHE :: int where "DBF_NOCACHE = 8"
definition DBF_END :: int where "DBF_END = 128"

definition DBQ_END :: int where "DBQ_END = 0"
definition DBQ_NULL :: int where "DBQ_NULL = 1"
definition DBQ_INT :: int where "DBQ_INT = 2"
definition DBQ_INT64 :: int where "DBQ_INT64 = 3"
definition DBQ_TEXT :: int where "DBQ_TEXT = 4"
definition DBQ_BLOB :: int where "DBQ_BLOB = 5"
definition DBQ_RES :: int where "DBQ_RES = 6"
definition DBQ_LASTID :: int where "DBQ_LASTID = 7"

definition SQLITE_ERROR :: int where "SQLITE_ERROR = 1"
definition SQLITE_ROW :: int where "SQLITE_ROW = 100"
definition SQLITE_DONE :: int where "SQLITE_DONE = 101"

text \<open>
  A queue item is a \<^verbatim>\<open>darray\<close>. The \<^verbatim>\<open>darray\<close> functions are not among the sources; an
  item is modelled by the values \<^verbatim>\<open>db_queue_item_create\<close> adds to it, in order, and a
  \<^verbatim>\<open>darray_get_*\<close> call returns the next value when it is of the kind asked for. What a
  read of another kind would return depends on the byte layout and is left open
  (\<open>None\<close>). A pointer is a number: the address of the query text, or of a reply queue.
\<close>

datatype cell =
    C_int32 int
  | C_int64 int
  | C_ptr nat
  | C_string string
  | C_dat "byte list"

type_synonym darray = "cell list"

fun darray_get_int32 :: "darray \<Rightarrow> (int \<times> darray) option" where
  "darray_get_int32 (C_int32 v # q) = Some (v, q)"
| "darray_get_int32 q = None"

fun darray_get_int64 :: "darray \<Rightarrow> (int \<times> darray) option" where
  "darray_get_int64 (C_int64 v # q) = Some (v, q)"
| "darray_get_int64 q = None"

fun darray_get_ptr :: "darray \<Rightarrow> (nat \<times> darray) option" where
  "darray_get_ptr (C_ptr p # q) = Some (p, q)"
| "darray_get_ptr q = None"

fun darray_get_string :: "darray \<Rightarrow> (string \<times> darray) option" where
  "darray_get_string (C_string v # q) = Some (v, q)"
| "darray_get_string q = None"

fun darray_get_dat :: "darray \<Rightarrow> (byte list \<times> darray) option" where
  "darray_get_dat (C_dat v # q) = Some (v, q)"
| "darray_get_dat q = None"

text \<open>
  What the service does, in order: statements run on the database and messages pushed
  on reply queues. A result message carries the result code and, for \<^verbatim>\<open>SQLITE_DONE\<close>,
  the last insert id; a row message carries the row.
\<close>

datatype param = P_null | P_int int | P_int64 int | P_text string | P_blob "byte list"

datatype db_event =
    Ev_begin
  | Ev_commit
  | Ev_rollback
  | Ev_exec nat "param list" bool
  | Ev_row nat "param list"
  | Ev_final nat int "int option"

text \<open>
  SQLite is an input of the model: whether a statement can be prepared, what running a
  prepared statement with its parameters yields (the rows, the code of the last
  \<^verbatim>\<open>sqlite3_step\<close>, the last insert id) and what BEGIN and COMMIT return, each with
  the database as it is afterwards.
\<close>

record 'd sqlite =
  sq_prepare_ok :: "'d \<Rightarrow> nat \<Rightarrow> bool"
  sq_run :: "'d \<Rightarrow> nat \<Rightarrow> param list \<Rightarrow> bool \<Rightarrow> (param list list \<times> int \<times> int) \<times> 'd"
  sq_begin :: "'d \<Rightarrow> int \<times> 'd"
  sq_commit :: "'d \<Rightarrow> int \<times> 'd"
  sq_rollback :: "'d \<Rightarrow> 'd"

text \<open>
  The locals of \<^verbatim>\<open>db_queue_process\<close> (\<open>ps_trans\<close> is \<^verbatim>\<open>trans_end.tv_sec != 0\<close>), the
  database, the events so far, and whether the loop is still running.
\<close>

record 'd proc_state =
  ps_trans :: bool
  ps_donext :: bool
  ps_errtrans :: bool
  ps_db :: 'd
  ps_events :: "db_event list"
  ps_running :: bool

text \<open>
  A pointer as a test reads it: NULL is 0. \<^verbatim>\<open>db_queue_item_final(res, code, lastid)\<close>
  does nothing for a NULL queue.
\<close>

definition ptr_opt :: "nat \<Rightarrow> nat option" where
  "ptr_opt p = (if p = 0 then None else Some p)"

definition db_queue_item_final :: "nat option \<Rightarrow> int \<Rightarrow> int \<Rightarrow> db_event list" where
  "db_queue_item_final res code lastid =
     (case res of
        None \<Rightarrow> []
      | Some qu \<Rightarrow> [Ev_final qu code (if code = SQLITE_DONE then Some lastid else None)])"

text \<open>
  \<^verbatim>\<open>db_queue_item_error(q)\<close>: after the query pointer, the loop reads one int32 after
  the other until it meets \<^verbatim>\<open>DBQ_END\<close> or \<^verbatim>\<open>DBQ_RES\<close>. It reads them where
  \<^verbatim>\<open>db_queue_process_one\<close> reads a type code and then the value of that type.
\<close>

fun db_queue_item_error_scan :: "darray \<Rightarrow> (int \<times> darray) option" where
  "db_queue_item_error_scan (C_int32 t # q) =
     (if t \<noteq> DBQ_END \<and> t \<noteq> DBQ_RES then db_queue_item_error_scan q else Some (t, q))"
| "db_queue_item_error_scan q = None"

definition db_queue_item_error :: "darray \<Rightarrow> db_event list option" where
  "db_queue_item_error q =
     (case darray_get_ptr q of
        None \<Rightarrow> None
      | Some (b, q1) \<Rightarrow>
          (case db_queue_item_error_scan q1 of
             None \<Rightarrow> None
           | Some (t, q2) \<Rightarrow>
               if t = DBQ_RES then
                 (case darray_get_ptr q2 of
                    None \<Rightarrow> None
                  | Some (res, q3) \<Rightarrow> Some (db_queue_item_final (ptr_opt res) SQLITE_ERROR 0))
               else Some []))"

text \<open>
  \<^verbatim>\<open>db_queue_process_one\<close>. The first loop binds the parameters (and, once the
  statement could not be prepared, only reads on); the second reads the reply queue and
  the wanted columns; then the statement is run, each row going to the reply queue when
  columns were asked for. The result is the code, the reply queue, the last insert id,
  the events and the database. A type code outside the list binds nothing; the bound of
  twenty columns is not modelled.
\<close>

fun db_bind_params :: "bool \<Rightarrow> darray \<Rightarrow> (param list \<times> int \<times> darray) option" where
  "db_bind_params failed (C_int32 t # q) =
     (if t = DBQ_END \<or> t = DBQ_RES then Some ([], t, q)
      else if failed then db_bind_params failed q
      else if t = DBQ_NULL then
        map_option (\<lambda>(ps, r). (P_null # ps, r)) (db_bind_params failed q)
      else if t = DBQ_INT then
        (case q of C_int32 v # q' \<Rightarrow>
           map_option (\<lambda>(ps, r). (P_int v # ps, r)) (db_bind_params failed q') | _ \<Rightarrow> None)
      else if t = DBQ_INT64 then
        (case q of C_int64 v # q' \<Rightarrow>
           map_option (\<lambda>(ps, r). (P_int64 v # ps, r)) (db_bind_params failed q') | _ \<Rightarrow> None)
      else if t = DBQ_TEXT then
        (case q of C_string v # q' \<Rightarrow>
           map_option (\<lambda>(ps, r). (P_text v # ps, r)) (db_bind_params failed q') | _ \<Rightarrow> None)
      else if t = DBQ_BLOB then
        (case q of C_dat v # q' \<Rightarrow>
           map_option (\<lambda>(ps, r). (P_blob v # ps, r)) (db_bind_params failed q') | _ \<Rightarrow> None)
      else db_bind_params failed q)"
| "db_bind_params failed q = None"

fun db_read_columns :: "darray \<Rightarrow> (bool \<times> int list) option" where
  "db_read_columns (C_int32 t # q) =
     (if t = DBQ_END then Some (False, [])
      else map_option (\<lambda>(w, cs). if t = DBQ_LASTID then (True, cs) else (w, t # cs))
             (db_read_columns q))"
| "db_read_columns q = None"

definition db_queue_process_one ::
  "'d sqlite \<Rightarrow> 'd \<Rightarrow> darray \<Rightarrow> bool \<Rightarrow> bool
     \<Rightarrow> (int \<times> nat option \<times> int \<times> db_event list \<times> 'd) option" where
  "db_queue_process_one drv db q nocache transaction =
     (case darray_get_ptr q of
        None \<Rightarrow> None
      | Some (query, q1) \<Rightarrow>
          (let failed = \<not> sq_prepare_ok drv db query
           in case db_bind_params failed q1 of
                None \<Rightarrow> None
              | Some (ps, t, q2) \<Rightarrow>
                  (case (if t = DBQ_RES then
                           (case darray_get_ptr q2 of
                              None \<Rightarrow> None
                            | Some (res, q3) \<Rightarrow>
                                map_option (\<lambda>(w, cs). (ptr_opt res, w, cs)) (db_read_columns q3))
                         else Some (None, False, [])) of
                     None \<Rightarrow> None
                   | Some (res, wantlastid, columns) \<Rightarrow>
                       if failed then Some (SQLITE_ERROR, res, 0, [], db)
                       else
                         (case sq_run drv db query ps transaction of
                            ((rows, r, rowid), db') \<Rightarrow>
                              Some (r, res,
                                    if r = SQLITE_DONE \<and> wantlastid then rowid else 0,
                                    Ev_exec query ps transaction
                                      # (case res of
                                           None \<Rightarrow> []
                                         | Some qu \<Rightarrow>
                                             if columns = [] then [] else map (Ev_row qu) rows),
                                    db')))))"

text \<open>
  One turn of the loop of \<^verbatim>\<open>db_queue_process\<close>; \<open>pop\<close> is what the pop returned, an
  item or NULL. \<open>None\<close> when reading the item is not determined by the model.
\<close>

definition db_commit_if_open :: "'d sqlite \<Rightarrow> 'd proc_state \<Rightarrow> 'd proc_state" where
  "db_commit_if_open drv st =
     (if ps_trans st
      then st\<lparr>ps_db := snd (sq_commit drv (ps_db st)), ps_events := ps_events st @ [Ev_commit]\<rparr>
      else st)"

definition db_queue_step :: "'d sqlite \<Rightarrow> 'd proc_state \<Rightarrow> darray option \<Rightarrow> 'd proc_state option" where
  "db_queue_step drv st pop =
     (case pop of
        None \<Rightarrow>
          Some ((db_commit_if_open drv st)
                  \<lparr>ps_trans := False, ps_donext := False, ps_errtrans := False\<rparr>)
      | Some q0 \<Rightarrow>
          (case darray_get_int32 q0 of
             None \<Rightarrow> None
           | Some (flags, q) \<Rightarrow>
               (let nocache = (flags AND DBF_NOCACHE \<noteq> 0);
                    st1 = (if flags AND DBF_SINGLE \<noteq> 0 \<or> flags AND DBF_END \<noteq> 0
                           then (db_commit_if_open drv st)
                                  \<lparr>ps_trans := False, ps_donext := False, ps_errtrans := False\<rparr>
                           else st)
                in if flags AND DBF_END \<noteq> 0 then Some (st1\<lparr>ps_running := False\<rparr>)
                   else if flags AND DBF_SINGLE \<noteq> 0 then
                     (case db_queue_process_one drv (ps_db st1) q nocache False of
                        None \<Rightarrow> None
                      | Some (r, res, lastid, evs, db') \<Rightarrow>
                          Some (st1\<lparr>ps_db := db',
                                    ps_events := ps_events st1 @ evs
                                      @ db_queue_item_final res r lastid\<rparr>))
                   else if ps_errtrans st1 then
                     (case db_queue_item_error q of
                        None \<Rightarrow> None
                      | Some evs \<Rightarrow>
                          (let donext = (flags AND DBF_NEXT \<noteq> 0);
                               st2 = st1\<lparr>ps_events := ps_events st1 @ evs, ps_donext := donext\<rparr>
                           in Some (if \<not> donext then st2\<lparr>ps_errtrans := False, ps_trans := False\<rparr>
                                    else st2)))
                   else if flags AND DBF_LAST \<noteq> 0 then
                     (case db_queue_process_one drv (ps_db st1) q nocache (ps_trans st1) of
                        None \<Rightarrow> None
                      | Some (r0, res, lastid, evs, db0) \<Rightarrow>
                          (let (r1, db1, evs1) =
                                 (if ps_trans st1 \<and> r0 = SQLITE_DONE
                                  then (fst (sq_commit drv db0), snd (sq_commit drv db0), [Ev_commit])
                                  else (r0, db0, []));
                               (db2, evs2) =
                                 (if ps_trans st1 \<and> r1 \<noteq> SQLITE_DONE
                                  then (sq_rollback drv db1, [Ev_rollback]) else (db1, []))
                           in Some (st1\<lparr>ps_trans := False, ps_donext := False, ps_db := db2,
                                        ps_events := ps_events st1 @ evs @ evs1 @ evs2
                                          @ db_queue_item_final res r1 lastid\<rparr>)))
                   else
                     (let (began, st2) =
                            (if \<not> ps_trans st1
                             then (fst (sq_begin drv (ps_db st1)),
                                   st1\<lparr>ps_trans := True, ps_db := snd (sq_begin drv (ps_db st1)),
                                       ps_events := ps_events st1 @ [Ev_begin]\<rparr>)
                             else (SQLITE_DONE, st1))
                      in if began \<noteq> SQLITE_DONE then
                           (case db_queue_item_error q of
                              None \<Rightarrow> None
                            | Some evs \<Rightarrow>
                                Some ((if flags AND DBF_NEXT \<noteq> 0
                                       then st2\<lparr>ps_donext := True, ps_errtrans := True\<rparr>
                                       else st2\<lparr>ps_trans := False\<rparr>)
                                        \<lparr>ps_events := ps_events st2 @ evs\<rparr>))
                         else
                           (case db_queue_process_one drv (ps_db st2) q nocache True of
                              None \<Rightarrow> None
                            | Some (r, res, lastid, evs, db') \<Rightarrow>
                                (let st3 = st2\<lparr>ps_db := db',
                                               ps_events := ps_events st2 @ evs
                                                 @ db_queue_item_final res r lastid\<rparr>
                                 in Some (if r \<noteq> SQLITE_DONE then
                                            (let st4 = st3\<lparr>ps_db := sq_rollback drv (ps_db st3),
                                                           ps_events := ps_events st3 @ [Ev_rollback]\<rparr>
                                             in if flags AND DBF_NEXT \<noteq> 0
                                                then st4\<lparr>ps_errtrans := True\<rparr>
                                                else st4\<lparr>ps_trans := False\<rparr>)
                                          else st3)))))))"

text \<open>
  \<^verbatim>\<open>db_queue_process\<close> on the sequence of pop results; it stops at the \<^verbatim>\<open>DBF_END\<close>
  item, and otherwise ends waiting when the given pops are used up.
\<close>

fun db_queue_process :: "'d sqlite \<Rightarrow> 'd proc_state \<Rightarrow> darray option list \<Rightarrow> 'd proc_state option" where
  "db_queue_process drv st [] = Some st"
| "db_queue_process drv st (pop # pops) =
     (case db_queue_step drv st pop of
        None \<Rightarrow> None
      | Some st' \<Rightarrow> if ps_running st' then db_queue_process drv st' pops else Some st')"

definition db_queue_start_state :: "'d \<Rightarrow> 'd proc_state" where
  "db_queue_start_state db =
     \<lparr>ps_trans = False, ps_donext = False, ps_errtrans = False, ps_db = db, ps_events = [],
      ps_running = True\<rparr>"

text \<open>\<^verbatim>\<open>db_queue_item_create(flags, q, ...)\<close> for the argument lists the examples use.\<close>

fun db_item_args :: "param list \<Rightarrow> darray" where
  "db_item_args [] = []"
| "db_item_args (P_null # ps) = C_int32 DBQ_NULL # db_item_args ps"
| "db_item_args (P_int v # ps) = C_int32 DBQ_INT # C_int32 v # db_item_args ps"
| "db_item_args (P_int64 v # ps) = C_int32 DBQ_INT64 # C_int64 v # db_item_args ps"
| "db_item_args (P_text v # ps) = C_int32 DBQ_TEXT # C_string v # db_item_args ps"
| "db_item_args (P_blob v # ps) = C_int32 DBQ_BLOB # C_dat v # db_item_args ps"

definition db_queue_item_create :: "int \<Rightarrow> nat \<Rightarrow> param list \<Rightarrow> (nat \<times> int list) option \<Rightarrow> darray" where
  "db_queue_item_create flags query ps res =
     C_int32 flags # C_ptr query # db_item_args ps
       @ (case res of
            None \<Rightarrow> []
          | Some (qu, cols) \<Rightarrow> C_int32 DBQ_RES # C_ptr qu # map C_int32 cols)
       @ [C_int32 DBQ_END]"

text \<open>
  An example database on which query 1 fails and every other statement succeeds; the
  database itself has no state in the example.
\<close>

definition example_sqlite :: "unit sqlite" where
  "example_sqlite =
     \<lparr>sq_prepare_ok = (\<lambda>db query. True),
      sq_run = (\<lambda>db query ps tr. (([], if query = 1 then SQLITE_ERROR else SQLITE_DONE, 0), db)),
      sq_begin = (\<lambda>db. (SQLITE_DONE, db)),
      sq_commit = (\<lambda>db. (SQLITE_DONE, db)),
      sq_rollback = (\<lambda>db. db)\<rparr>"

text \<open>
  Two requests pushed together: a query that fails, flagged \<^verbatim>\<open>DBF_NEXT\<close>, and the
  request chained to it, which binds \<open>ps\<close> and asks for its result, with the last insert
  id, on reply queue 9.
\<close>

definition example_failing_query :: darray where
  "example_failing_query = db_queue_item_create DBF_NEXT 1 [] None"

definition example_chained_query :: "param list \<Rightarrow> darray" where
  "example_chained_query ps = db_queue_item_create 0 2 ps (Some (9, [DBQ_LASTID]))"

text \<open>The error result a request is owed: nothing when it names no reply queue.\<close>

definition db_error_reply :: "(nat \<times> int list) option \<Rightarrow> db_event list" where
  "db_error_reply res =
     (case res of None \<Rightarrow> [] | Some (qu, cols) \<Rightarrow> db_queue_item_final (ptr_opt qu) SQLITE_ERROR 0)"

section \<open>File-list properties\<close>

lemma fl_list_isempty_loop_iff:
  "fl_list_isempty_loop fs \<longleftrightarrow> list_all (\<lambda>f. isfile f \<and> \<not> hastth f) fs"
  by (induction fs) auto

text \<open>
  C6, as the code has it. \<^verbatim>\<open>fl_list_isempty\<close> of a directory is true exactly when none
  of its direct children is a subdirectory or a file with a TTH: it looks one level
  down, and any subdirectory, empty or not, makes the directory non-empty.
\<close>

theorem fl_list_isempty_direct_children:
  "\<not> isfile fl \<Longrightarrow>
     fl_list_isempty fl \<longleftrightarrow> list_all (\<lambda>f. isfile f \<and> \<not> hastth f) (sub fl)"
  by (simp add: fl_list_isempty_def fl_list_isempty_loop_iff)

theorem fl_list_isempty_direct_children_witness:
  "\<not> isfile (Fl_list ''d'' 0 [] False False False [Fl_list ''f'' 7 [] True False False []])
   \<and> fl_list_isempty (Fl_list ''d'' 0 [] False False False [Fl_list ''f'' 7 [] True False False []])"
  using fl_list_isempty_direct_children
    [of "Fl_list ''d'' 0 [] False False False [Fl_list ''f'' 7 [] True False False []]"]
  by simp

text \<open>
  C6, as the specification words it, fails: a directory whose only child is an empty
  subdirectory has no file with a TTH anywhere below it, and is not empty for the code.
\<close>

theorem fl_list_isempty_subtree_counterexample:
  "\<not> (fl_list_isempty (Fl_list ''d'' 0 [] False False False [Fl_list ''e'' 0 [] False False False []])
       \<longleftrightarrow> \<not> subtree_has_tth_file
             (Fl_list ''d'' 0 [] False False False [Fl_list ''e'' 0 [] False False False []]))"
  by (simp add: fl_list_isempty_def)

text \<open>
  C9. A file node without a TTH matches no search, whatever the predicate and whatever
  the keyword matcher answers.
\<close>

theorem fl_search_match_needs_tth:
  "isfile fl \<Longrightarrow> \<not> hastth fl \<Longrightarrow> \<not> fl_search_match rmatch fl s"
  by (simp add: fl_search_match_def)

theorem fl_search_match_needs_tth_witness:
  "isfile (Fl_list ''a.txt'' 5 [] True False False [])
   \<and> \<not> hastth (Fl_list ''a.txt'' 5 [] True False False [])
   \<and> (filedir \<lparr>sizem = - 2, filedir = 3, s_size = 0, ext = [], s_and = [], s_not = None\<rparr> AND 1) \<noteq> 0
   \<and> fl_search_match_name (\<lambda>r n. True) (Fl_list ''a.txt'' 5 [] True False False [])
        \<lparr>sizem = - 2, filedir = 3, s_size = 0, ext = [], s_and = ([] :: unit list), s_not = None\<rparr>
   \<and> \<not> fl_search_match (\<lambda>r n. True) (Fl_list ''a.txt'' 5 [] True False False [])
        \<lparr>sizem = - 2, filedir = 3, s_size = 0, ext = [], s_and = ([] :: unit list), s_not = None\<rparr>"
  using fl_search_match_needs_tth
    [of "Fl_list ''a.txt'' 5 [] True False False []" "\<lambda>r n. True"
        "\<lparr>sizem = - 2, filedir = 3, s_size = 0, ext = [], s_and = ([] :: unit list), s_not = None\<rparr>"]
  by (simp add: fl_search_match_name_def)

text \<open>
  C7 on the code. What \<^verbatim>\<open>fl_load_fixinput\<close> does: every byte before the last position
  \<open>len - 1\<close> is rewritten, the byte at the last position is left as it is.
\<close>

lemma fl_load_fixinput_length: "length (fl_load_fixinput buf len) = length buf"
  by (induction buf len rule: fl_load_fixinput.induct) auto

lemma fl_load_fixinput_before_last:
  "i < length buf \<Longrightarrow> int i < len - 1 \<Longrightarrow>
     fl_load_fixinput buf len ! i = (if buf ! i = 0x1d then 0x3f else buf ! i)"
proof (induction buf len arbitrary: i rule: fl_load_fixinput.induct)
  case (1 len)
  then show ?case by simp
next
  case (2 b bs len)
  then show ?case by (cases i) auto
qed

lemma fl_load_fixinput_last_kept:
  "i < length buf \<Longrightarrow> int i \<ge> len - 1 \<Longrightarrow> fl_load_fixinput buf len ! i = buf ! i"
proof (induction buf len arbitrary: i rule: fl_load_fixinput.induct)
  case (1 len)
  then show ?case by simp
next
  case (2 b bs len)
  then show ?case by (cases i) auto
qed

text \<open>
  C7 fails at the last byte of a chunk: a read of the two bytes \<^verbatim>\<open>A\<close>, 0x1d from a
  plain file reaches the XML layer with the 0x1d still in it.
\<close>

theorem fl_load_input_last_byte_unfixed:
  "fl_load_input \<lparr>fh_bz = False, fh_f = True, stream_end = False, xc_err = None\<rparr>
       [0x41, 0x1d] 2 BZ_OK
     = (2, [0x41, 0x1d], \<lparr>fh_bz = False, fh_f = True, stream_end = False, xc_err = None\<rparr>)"
  by (simp add: fl_load_input_def)

section \<open>Listener properties\<close>

lemma listen_stop_random [simp]:
  "random_tcp_port (listen_stop s) = random_tcp_port s"
  "random_udp_port (listen_stop s) = random_udp_port s"
  "random_tls_port (listen_stop s) = random_tls_port s"
  by (simp_all add: listen_stop_def)

lemma bind_add_random [simp]:
  "random_tcp_port (bind_add b ty ip p s) = random_tcp_port s"
  "random_udp_port (bind_add b ty ip p s) = random_udp_port s"
  "random_tls_port (bind_add b ty ip p s) = random_tls_port s"
  by (simp_all add: bind_add_def Let_def split: bind_scan.splits prod.splits)

lemma bind_create_random [simp]:
  "random_tcp_port (bind_create os k s) = random_tcp_port s"
  "random_udp_port (bind_create os k s) = random_udp_port s"
  "random_tls_port (bind_create os k s) = random_tls_port s"
  by (simp_all add: bind_create_def Let_def)

lemma listen_refresh_tabs_random [simp]:
  "random_tcp_port (listen_refresh_tabs tabs s) = random_tcp_port s"
  "random_udp_port (listen_refresh_tabs tabs s) = random_udp_port s"
  "random_tls_port (listen_refresh_tabs tabs s) = random_tls_port s"
  by (induction tabs s rule: listen_refresh_tabs.induct; simp add: Let_def)+

lemma listen_refresh_create_random [simp]:
  "random_tcp_port (listen_refresh_create os ks s) = random_tcp_port s"
  "random_udp_port (listen_refresh_create os ks s) = random_udp_port s"
  "random_tls_port (listen_refresh_create os ks s) = random_tls_port s"
  by (induction os ks s rule: listen_refresh_create.induct; simp add: Let_def)+

lemma listen_refresh_random [simp]:
  "random_tcp_port (listen_refresh os tabs s) = random_tcp_port s"
  "random_udp_port (listen_refresh os tabs s) = random_udp_port s"
  "random_tls_port (listen_refresh os tabs s) = random_tls_port s"
  by (simp_all add: listen_refresh_def Let_def)






text \<open>
  Start-up returns once a TLS draw differs from the TCP draw and one more draw follows,
  however many equal draws come before.
\<close>

lemma draw_tls_port_returns:
  "(word_of_int (t 1025 65535) :: 16 word) \<noteq> tcp \<Longrightarrow>
     draw_tls_port tcp (replicate n d @ t # ds) =
       (if (word_of_int (d 1025 65535) :: 16 word) = tcp \<or> n = 0
        then Some (word_of_int (t 1025 65535), ds)
        else Some (word_of_int (d 1025 65535), replicate (n - 1) d @ t # ds))"
  by (induction n) (auto simp: replicate_app_Cons_same)

lemma listen_global_init_returns:
  "(word_of_int (t 1025 65535) :: 16 word) \<noteq> word_of_int (d 1025 65535) \<Longrightarrow>
     \<exists>s. listen_global_init (d # replicate n d @ t # u # ds) = Some s"
  by (simp add: listen_global_init_def draw_tls_port_returns)












text \<open>
  C1 on the code. When \<^verbatim>\<open>socket()\<close> succeeds, \<^verbatim>\<open>g_return_if_fail(sock < 0)\<close> leaves
  \<^verbatim>\<open>bind_create\<close> at once: the only call made is \<^verbatim>\<open>socket()\<close>, and the bind keeps no
  socket.
\<close>

lemma bind_create_socket_succeeds:
  "0 \<le> os_socket os (lb_type (listen_binds s ! k)) (lb_ip4 (listen_binds s ! k))
          (lb_port (listen_binds s ! k)) \<Longrightarrow>
     bind_create os k s =
       s\<lparr>os_calls := os_calls s
            @ [Sys_socket (if lb_type (listen_binds s ! k) = LBT_UDP then SOCK_STREAM
                           else SOCK_DGRAM)]\<rparr>"
  by (simp add: bind_create_def Let_def)

text \<open>
  C1 fails on the example configuration, where every call of the operating system
  succeeds: the refresh ends with a UDP and a TCP bind, and all it has asked of the
  operating system is a stream socket for the UDP bind and a datagram socket for the
  TCP bind. No option is set, nothing is bound, \<^verbatim>\<open>listen\<close> is not called, and both
  binds are left without a socket.
\<close>

theorem listen_refresh_creates_no_listener:
  "os_calls (listen_refresh example_os [example_tab] example_listen_state)
     = [Sys_socket SOCK_STREAM, Sys_socket SOCK_DGRAM]
   \<and> map lb_type (listen_binds (listen_refresh example_os [example_tab] example_listen_state))
     = [LBT_UDP, LBT_TCP]
   \<and> map lb_sock (listen_binds (listen_refresh example_os [example_tab] example_listen_state))
     = [0, 0]"
  by (simp add: listen_refresh_def listen_stop_def example_tab_def example_os_def
      example_listen_state_def Let_def hubs_empty_def bind_add_def bind_add_port_def
      bind_hub_add_def hub_set_bind_def VAR_TLSP_DISABLE_def bind_create_def)

section \<open>Download-queue properties\<close>

lemma dl_queue_start_frame [simp]:
  "dls (dl_queue_start s) = dls s" "duds (dl_queue_start s) = duds s"
  "dl_queue (dl_queue_start s) = dl_queue s" "queue_users (dl_queue_start s) = queue_users s"
  by (simp_all add: dl_queue_start_def)

lemma dl_user_setstate_removed_frame [simp]:
  "dls (dl_user_setstate_removed uid s) = dls s"
  "duds (dl_user_setstate_removed uid s) = duds s"
  "dl_queue (dl_user_setstate_removed uid s) = dl_queue s"
  by (simp_all add: dl_user_setstate_removed_def split: option.splits)

text \<open>What dl_user_rm does to the heap of downloads.\<close>

lemma dl_user_rm_dls:
  "map_of (dls (dl_user_rm a i s)) b =
     (case map_of (dls s) a of
        None \<Rightarrow> map_of (dls s) b
      | Some dl \<Rightarrow>
          if i < length (dl_u dl) \<and> b = a
          then Some ((if (case map_of (duds s) (dl_u dl ! i) of None \<Rightarrow> False
                          | Some dud \<Rightarrow> (case map_of (queue_users s) (dud_u dud) of None \<Rightarrow> False
                               | Some du \<Rightarrow> du_active du = Some (dl_u dl ! i)))
                      then dl\<lparr>dl_active := False\<rparr> else dl)
                     \<lparr>dl_u := g_ptr_array_remove_index_fast i (dl_u dl)\<rparr>)
          else map_of (dls s) b)"
  by (simp add: dl_user_rm_def Let_def update_conv' split: option.splits)

lemma dl_user_rm_dl_queue [simp]: "dl_queue (dl_user_rm a i s) = dl_queue s"
  by (simp add: dl_user_rm_def Let_def split: option.splits)

lemma dl_user_rm_duds:
  "map_of (duds (dl_user_rm a i s)) d =
     (case map_of (dls s) a of
        None \<Rightarrow> map_of (duds s) d
      | Some dl \<Rightarrow> if i < length (dl_u dl) \<and> d = dl_u dl ! i then None else map_of (duds s) d)"
  by (auto simp add: dl_user_rm_def Let_def delete_conv' split: option.splits)

lemma remove_index_fast_length:
  "i < length xs \<Longrightarrow> length (g_ptr_array_remove_index_fast i xs) = length xs - 1"
  by (simp add: g_ptr_array_remove_index_fast_def)

lemma dl_user_rm_inv: "list_has_one_user s \<Longrightarrow> list_has_one_user (dl_user_rm a i s)"
  unfolding list_has_one_user_def
  by (auto simp: dl_user_rm_dls remove_index_fast_length split: option.splits if_splits)

lemma dl_user_add_dls:
  "map_of (dls (dl_user_add a uid e m s)) b =
     (case map_of (dls s) a of
        None \<Rightarrow> map_of (dls s) b
      | Some dl \<Rightarrow>
          if (\<not> dl_islist dl \<or> length (dl_u dl) = 0) \<and> b = a
          then Some (dl\<lparr>dl_u := dl_u dl @ [dl_next_addr s]\<rparr>)
          else map_of (dls s) b)"
  by (simp add: dl_user_add_def Let_def update_conv' split: option.splits)

lemma dl_user_add_inv: "list_has_one_user s \<Longrightarrow> list_has_one_user (dl_user_add a uid e m s)"
  unfolding list_has_one_user_def
  by (auto simp: dl_user_add_dls split: option.splits if_splits)

lemma dl_user_add_rejected:
  "map_of (dls s) a = Some dl \<Longrightarrow> dl_islist dl \<Longrightarrow> length (dl_u dl) \<noteq> 0 \<Longrightarrow>
     dl_user_add a uid e m s = s"
  by (simp add: dl_user_add_def)

lemma dl_queue_rm_users_inv:
  "list_has_one_user s \<Longrightarrow> list_has_one_user (dl_queue_rm_users a s)"
proof (induction a s rule: dl_queue_rm_users.induct)
  case (1 a s)
  show ?case
  proof (cases "map_of (dls s) a")
    case None
    then show ?thesis using 1 by (simp add: dl_queue_rm_users.simps [of a s])
  next
    case (Some dl)
    show ?thesis
    proof (cases "length (dl_u dl) > 0")
      case True
      then show ?thesis using 1 Some dl_user_rm_inv by (simp add: dl_queue_rm_users.simps [of a s])
    next
      case False
      then show ?thesis using 1 Some by (simp add: dl_queue_rm_users.simps [of a s])
    qed
  qed
qed

lemma list_has_one_user_update:
  "list_has_one_user s \<Longrightarrow> (dl_islist dl \<Longrightarrow> length (dl_u dl) \<le> 1) \<Longrightarrow>
     dls s' = AList.update a dl (dls s) \<Longrightarrow> list_has_one_user s'"
  unfolding list_has_one_user_def by (auto simp: update_conv')

lemma list_has_one_user_delete:
  "list_has_one_user s \<Longrightarrow> dls s' = AList.delete a (dls s) \<Longrightarrow> list_has_one_user s'"
  unfolding list_has_one_user_def by (auto simp: delete_conv')

lemma list_has_one_user_same:
  "list_has_one_user s \<Longrightarrow> dls s' = dls s \<Longrightarrow> list_has_one_user s'"
  unfolding list_has_one_user_def by simp


lemma dl_queue_rm_dls:
  "dls (dl_queue_rm ie a s) =
     (case map_of (dls s) a of
        None \<Rightarrow> dls s
      | Some dl0 \<Rightarrow>
          (case map_of (dls (dl_queue_rm_users a
                   (s\<lparr>dls := AList.update a (dl0\<lparr>dl_delete := True\<rparr>) (dls s)\<rparr>))) a of
             None \<Rightarrow> dls (dl_queue_rm_users a
                   (s\<lparr>dls := AList.update a (dl0\<lparr>dl_delete := True\<rparr>) (dls s)\<rparr>))
           | Some dl \<Rightarrow>
               if dl_dlthread dl
               then dls (dl_queue_rm_users a
                   (s\<lparr>dls := AList.update a (dl0\<lparr>dl_delete := True\<rparr>) (dls s)\<rparr>))
               else AList.delete a (dls (dl_queue_rm_users a
                   (s\<lparr>dls := AList.update a (dl0\<lparr>dl_delete := True\<rparr>) (dls s)\<rparr>)))))"
  by (simp add: dl_queue_rm_def Let_def split: option.splits)

lemma dl_queue_rm_inv: "list_has_one_user s \<Longrightarrow> list_has_one_user (dl_queue_rm ie a s)"
proof (cases "map_of (dls s) a")
  case None
  assume "list_has_one_user s"
  then show ?thesis using None by (simp add: dl_queue_rm_def)
next
  case (Some dl0)
  assume inv: "list_has_one_user s"
  let ?s0 = "s\<lparr>dls := AList.update a (dl0\<lparr>dl_delete := True\<rparr>) (dls s)\<rparr>"
  let ?s1 = "dl_queue_rm_users a ?s0"
  have "list_has_one_user ?s0"
  proof (rule list_has_one_user_update [OF inv, of "dl0\<lparr>dl_delete := True\<rparr>" _ a])
    show "length (dl_u (dl0\<lparr>dl_delete := True\<rparr>)) \<le> 1" if "dl_islist (dl0\<lparr>dl_delete := True\<rparr>)"
      using inv Some that by (auto simp: list_has_one_user_def)
  qed simp
  then have i1: "list_has_one_user ?s1" by (rule dl_queue_rm_users_inv)
  have "dls (dl_queue_rm ie a s) = dls ?s1 \<or> dls (dl_queue_rm ie a s) = AList.delete a (dls ?s1)"
    using Some by (simp add: dl_queue_rm_dls split: option.splits)
  then show ?thesis
    using list_has_one_user_same [OF i1] list_has_one_user_delete [OF i1] by blast
qed


lemma list_has_one_user_fields [simp]:
  "list_has_one_user (s\<lparr>dl_calls := c\<rparr>) = list_has_one_user s"
  "list_has_one_user (s\<lparr>dl_queue := q\<rparr>) = list_has_one_user s"
  "list_has_one_user (s\<lparr>queue_users := us\<rparr>) = list_has_one_user s"
  "list_has_one_user (s\<lparr>duds := ds\<rparr>) = list_has_one_user s"
  "list_has_one_user (s\<lparr>dl_next_addr := n\<rparr>) = list_has_one_user s"
  "list_has_one_user (dl_queue_start s) = list_has_one_user s"
  by (simp_all add: list_has_one_user_def)

lemma dl_queue_insert_dls:
  "dls (snd (dl_queue_insert env dl init s)) =
     AList.update (dl_next_addr s)
       ((if \<not> dl_islist dl \<and> \<not> dl_hastthl dl \<and> dl_size dl \<le> DL_MINTTHLSIZE
         then dl\<lparr>dl_hastthl := True, dl_hash_block := DL_MINTTHLSIZE\<rparr> else dl)
        \<lparr>dl_inc := build_filename env (incoming_dir env) (base32_encode env (dl_hash dl)),
          dl_u := []\<rparr>) (dls s)"
  by (simp add: dl_queue_insert_def Let_def)

lemma dl_queue_insert_inv:
  "list_has_one_user s \<Longrightarrow> list_has_one_user (snd (dl_queue_insert env dl init s))"
  by (rule list_has_one_user_update [OF _ _ dl_queue_insert_dls]) simp_all

lemma dl_queue_addlist_inv:
  assumes "list_has_one_user s"
  shows "list_has_one_user (dl_queue_addlist env hasinfo uid sel opn mtch s)"
proof (cases "hasinfo")
  case False
  then show ?thesis using assms by (simp add: dl_queue_addlist_def)
next
  case True
  show ?thesis
  proof (cases "map_of (dl_queue s) (tiger_uid env uid)")
    case None
    then show ?thesis
      using True dl_user_add_inv [OF dl_queue_insert_inv [OF assms]]
      by (simp add: dl_queue_addlist_def Let_def split_beta)
  next
    case (Some dup)
    show ?thesis
    proof (cases "map_of (dls s) dup")
      case None
      then show ?thesis using True Some assms by (simp add: dl_queue_addlist_def Let_def)
    next
      case (Some d)
      have "list_has_one_user
              (s\<lparr>dls := AList.update dup (d\<lparr>dl_flopen := (opn \<or> dl_flopen d),
                                             dl_flmatch := (mtch \<or> dl_flmatch d)\<rparr>) (dls s)\<rparr>)"
      proof (rule list_has_one_user_update [OF assms, of _ _ dup])
        show "length (dl_u (d\<lparr>dl_flopen := (opn \<or> dl_flopen d), dl_flmatch := (mtch \<or> dl_flmatch d)\<rparr>)) \<le> 1"
          if "dl_islist (d\<lparr>dl_flopen := (opn \<or> dl_flopen d), dl_flmatch := (mtch \<or> dl_flmatch d)\<rparr>)"
          using assms Some that by (auto simp: list_has_one_user_def)
      qed simp
      then show ?thesis
        using True Some \<open>map_of (dl_queue s) (tiger_uid env uid) = Some dup\<close>
        by (simp add: dl_queue_addlist_def Let_def)
    qed
  qed
qed

lemma dl_queue_addfile_inv:
  assumes "list_has_one_user s"
  shows "list_has_one_user (snd (dl_queue_addfile env uid h sz fn s))"
proof (cases "map_of (dl_queue s) h")
  case None
  have "list_has_one_user (dl_user_add a uid 0 None (snd (dl_queue_insert env dl False s)))" for a dl
    by (rule dl_user_add_inv [OF dl_queue_insert_inv [OF assms]])
  then show ?thesis
    using None
    by (simp add: dl_queue_addfile_def Let_def split_beta)
next
  case (Some a)
  then show ?thesis using assms by (simp add: dl_queue_addfile_def)
qed

lemma dl_queue_matchfile_inv:
  assumes "list_has_one_user s"
  shows "list_has_one_user (snd (dl_queue_matchfile uid h s))"
proof -
  have "list_has_one_user (dl_user_add a uid 0 None s)" for a
    by (rule dl_user_add_inv [OF assms])
  then show ?thesis
    using assms
    by (simp add: dl_queue_matchfile_def Let_def split: option.splits)
qed

lemma dl_queue_rm_if_empty_list_inv:
  "list_has_one_user s \<Longrightarrow> list_has_one_user (dl_queue_rm_if_empty_list ie a s)"
  by (simp add: dl_queue_rm_if_empty_list_def dl_queue_rm_inv split: option.splits)

lemma dl_queue_rmuser_one_inv:
  "list_has_one_user s \<Longrightarrow> list_has_one_user (dl_queue_rmuser_one ie uid a s)"
  by (simp add: dl_queue_rmuser_one_def dl_queue_rm_if_empty_list_inv dl_user_rm_inv
      split: option.splits)

lemma dl_queue_rmuser_all_inv:
  "list_has_one_user s \<Longrightarrow> list_has_one_user (dl_queue_rmuser_all ie q s)"
proof (induction q arbitrary: s)
  case Nil
  then show ?case by simp
next
  case (Cons i n)
  show ?case
    using Cons.prems
    by (auto split: option.splits
        intro!: Cons.IH dl_queue_rm_if_empty_list_inv dl_user_rm_inv)
qed

lemma dl_queue_rmuser_inv:
  assumes "list_has_one_user s"
  shows "list_has_one_user (dl_queue_rmuser ie uid h s)"
proof -
  have "list_has_one_user (dl_queue_rmuser_one ie uid a s)" for a
    by (rule dl_queue_rmuser_one_inv [OF assms])
  moreover have "list_has_one_user (dl_queue_rmuser_all ie q s)" for q
    by (rule dl_queue_rmuser_all_inv [OF assms])
  ultimately show ?thesis
    using assms
    by (simp add: dl_queue_rmuser_def Let_def split: option.splits)
qed

lemma dl_load_dl_inv:
  "list_has_one_user s \<Longrightarrow> list_has_one_user (dl_load_dl env h sz dest prio err err_msg tthllen s)"
  by (simp add: dl_load_dl_def Let_def dl_queue_insert_inv split: option.splits)

lemma dl_load_dlu_inv:
  "list_has_one_user s \<Longrightarrow> list_has_one_user (dl_load_dlu h uid err err_msg s)"
  by (simp add: dl_load_dlu_def dl_user_add_inv split: option.splits)


lemma dl_apply_inv: "list_has_one_user s \<Longrightarrow> list_has_one_user (dl_apply env op s)"
  by (cases op)
    (simp_all add: dl_queue_addlist_inv dl_queue_addfile_inv dl_queue_matchfile_inv
      dl_queue_rmuser_inv dl_queue_rm_inv dl_load_dl_inv dl_load_dlu_inv dl_user_add_inv
      dl_user_rm_inv)

lemma dl_queue_rm_users_empty:
  "map_of (dls s) a = Some dl \<Longrightarrow> dl_u dl = [] \<Longrightarrow> dl_queue_rm_users a s = s"
  by (simp add: dl_queue_rm_users.simps [of a s])

lemma dl_queue_rm_users_dl_queue [simp]: "dl_queue (dl_queue_rm_users a s) = dl_queue s"
proof (induction a s rule: dl_queue_rm_users.induct)
  case (1 a s)
  then show ?case
    by (cases "map_of (dls s) a") (simp_all add: dl_queue_rm_users.simps [of a s])
qed

lemma dl_queue_rm_dl_queue:
  "map_of (dl_queue (dl_queue_rm ie a s)) k = None" if "map_of (dl_queue s) k = None"
  using that by (simp add: dl_queue_rm_def Let_def delete_conv' split: option.splits)

lemma dl_queue_rm_empty_u:
  assumes "map_of (dls s) a = Some dl" "dl_u dl = []"
  shows "map_of (dl_queue (dl_queue_rm ie a s)) (dl_hash dl) = None"
    and "duds (dl_queue_rm ie a s) = duds s"
    and "b \<noteq> a \<Longrightarrow> map_of (dls (dl_queue_rm ie a s)) b = map_of (dls s) b"
proof -
  let ?s0 = "s\<lparr>dls := AList.update a (dl\<lparr>dl_delete := True\<rparr>) (dls s)\<rparr>"
  have u: "dl_queue_rm_users a ?s0 = ?s0"
    by (rule dl_queue_rm_users_empty [of _ _ "dl\<lparr>dl_delete := True\<rparr>"])
      (simp_all add: update_conv' assms)
  show "map_of (dl_queue (dl_queue_rm ie a s)) (dl_hash dl) = None"
    using assms(1) by (simp add: dl_queue_rm_def Let_def u update_conv' delete_conv')
  show "duds (dl_queue_rm ie a s) = duds s"
    using assms(1) by (simp add: dl_queue_rm_def Let_def u update_conv')
  show "map_of (dls (dl_queue_rm ie a s)) b = map_of (dls s) b" if "b \<noteq> a"
    using assms(1) that by (simp add: dl_queue_rm_def Let_def u update_conv' delete_conv')
qed

lemma dl_queue_rm_if_empty_list_dl_queue:
  "map_of (dl_queue s) k = None \<Longrightarrow> map_of (dl_queue (dl_queue_rm_if_empty_list ie a s)) k = None"
  by (simp add: dl_queue_rm_if_empty_list_def dl_queue_rm_dl_queue split: option.splits)

lemma dl_queue_rmuser_all_dl_queue:
  "map_of (dl_queue s) k = None \<Longrightarrow> map_of (dl_queue (dl_queue_rmuser_all ie q s)) k = None"
proof (induction q arbitrary: s)
  case Nil
  then show ?case by simp
next
  case (Cons i n)
  show ?case
    using Cons.prems
    by (auto split: option.splits intro!: Cons.IH dl_queue_rm_if_empty_list_dl_queue)
qed

lemma remove_index_fast_single [simp]: "g_ptr_array_remove_index_fast 0 [d] = []"
  by (simp add: g_ptr_array_remove_index_fast_def)

text \<open>Removing the only slot of a file list and then checking whether it is empty.\<close>

lemma sole_user_removed:
  assumes "map_of (dls s) a = Some dl" "dl_islist dl" "dl_u dl = [d]"
  shows "map_of (dl_queue (dl_queue_rm_if_empty_list ie a (dl_user_rm a 0 s))) (dl_hash dl) = None"
proof -
  from assms obtain dl' where
    d': "map_of (dls (dl_user_rm a 0 s)) a = Some dl'" and u': "dl_u dl' = []"
    and l': "dl_islist dl'" and h': "dl_hash dl' = dl_hash dl"
    by (auto simp: dl_user_rm_dls split: option.splits)
  show ?thesis
    using d' u' l' h' dl_queue_rm_empty_u(1) [OF d' u', of ie]
    by (simp add: dl_queue_rm_if_empty_list_def)
qed

lemma find_index_from_single [simp]: "find_index_from P 0 [d] = (if P d then Some 0 else None)"
  by simp

lemma dl_queue_rmuser_one_removes:
  assumes "map_of (dl_queue s) h = Some a" "map_of (dls s) a = Some dl" "dl_islist dl"
    "dl_hash dl = h" "dl_u dl = [d]" "map_of (duds s) d = Some dud"
    "map_of (queue_users s) (dud_u dud) = Some du"
  shows "map_of (dl_queue (dl_queue_rmuser ie (dud_u dud) (Some h) s)) h = None"
proof -
  have "dud_user_is s (dud_u dud) d" using assms(6) by (simp add: dud_user_is_def)
  then have "dl_queue_rmuser_one ie (dud_u dud) a s
             = dl_queue_rm_if_empty_list ie a (dl_user_rm a 0 s)"
    using assms(2,5) by (simp add: dl_queue_rmuser_one_def)
  then show ?thesis
    using assms(1,7) sole_user_removed [OF assms(2,3,5), of ie] assms(4)
    by (simp add: dl_queue_rmuser_def Let_def)
qed


lemma find_index_from_Some:
  "find_index_from P k xs = Some j \<Longrightarrow> k \<le> j \<and> j - k < length xs \<and> P (xs ! (j - k))"
proof (induction xs arbitrary: k)
  case Nil
  then show ?case by simp
next
  case (Cons x xs)
  show ?case
  proof (cases "P x")
    case True
    then show ?thesis using Cons.prems by simp
  next
    case False
    then have "find_index_from P (Suc k) xs = Some j" using Cons.prems by simp
    from Cons.IH [OF this] show ?thesis by (auto simp: Suc_diff_le)
  qed
qed

text \<open>
  One turn of the loop of \<^verbatim>\<open>dl_queue_rmuser(uid, NULL)\<close> on an item other than \<open>d\<close>
  leaves the file list whose only slot is \<open>d\<close> as it is.
\<close>

lemma rmuser_step_keeps:
  assumes d: "map_of (duds s) d = Some dud" "map_of (dls s) (dud_dl dud) = Some dl" "dl_u dl = [d]"
    and i: "i \<noteq> d" "map_of (duds s) i = Some dudi" "map_of (dls s) (dud_dl dudi) = Some dli"
    and s': "s' = dl_queue_rm_if_empty_list ie (dud_dl dudi)
                   (case find_index_from (\<lambda>x. x = i) 0 (dl_u dli) of
                      None \<Rightarrow> s | Some j \<Rightarrow> dl_user_rm (dud_dl dudi) j s)"
  shows "map_of (duds s') d = Some dud \<and> map_of (dls s') (dud_dl dud) = Some dl"
proof (cases "dud_dl dudi = dud_dl dud")
  case True
  then have "dli = dl" using d(2) i(3) by simp
  then have "find_index_from (\<lambda>x. x = i) 0 (dl_u dli) = None" using d(3) i(1) by simp
  then have "s' = s"
    using s' True d(2,3) by (simp add: dl_queue_rm_if_empty_list_def)
  then show ?thesis using d by simp
next
  case False
  let ?s1 = "case find_index_from (\<lambda>x. x = i) 0 (dl_u dli) of
               None \<Rightarrow> s | Some j \<Rightarrow> dl_user_rm (dud_dl dudi) j s"
  have s1: "map_of (duds ?s1) d = Some dud \<and> map_of (dls ?s1) (dud_dl dud) = Some dl"
  proof (cases "find_index_from (\<lambda>x. x = i) 0 (dl_u dli)")
    case None
    then show ?thesis using d by simp
  next
    case (Some j)
    from find_index_from_Some [OF this] have "j < length (dl_u dli)" "dl_u dli ! j = i" by auto
    then show ?thesis
      using Some d i False by (simp add: dl_user_rm_duds dl_user_rm_dls)
  qed
  show ?thesis
  proof (cases "map_of (dls ?s1) (dud_dl dudi)")
    case None
    then show ?thesis using s' s1 by (simp add: dl_queue_rm_if_empty_list_def)
  next
    case (Some dl1)
    show ?thesis
    proof (cases "dl_islist dl1 \<and> length (dl_u dl1) = 0")
      case True
      then have e: "dl_u dl1 = []" by simp
      have "s' = dl_queue_rm ie (dud_dl dudi) ?s1"
        using s' Some True by (simp add: dl_queue_rm_if_empty_list_def)
      then show ?thesis
        using s1 dl_queue_rm_empty_u(2) [OF Some e, of ie]
          dl_queue_rm_empty_u(3) [OF Some e, of "dud_dl dud" ie] False
        by simp
    next
      case False
      then have "s' = ?s1" using s' Some by (auto simp add: dl_queue_rm_if_empty_list_def)
      then show ?thesis using s1 by simp
    qed
  qed
qed

lemma dl_queue_rmuser_all_removes:
  assumes "d \<in> set q" "map_of (duds s) d = Some dud" "map_of (dls s) (dud_dl dud) = Some dl"
    "dl_islist dl" "dl_u dl = [d]"
  shows "map_of (dl_queue (dl_queue_rmuser_all ie q s)) (dl_hash dl) = None"
  using assms
proof (induction q arbitrary: s)
  case Nil
  then show ?case by simp
next
  case (Cons i n)
  show ?case
  proof (cases "i = d")
    case True
    have "map_of (dl_queue (dl_queue_rm_if_empty_list ie (dud_dl dud) (dl_user_rm (dud_dl dud) 0 s)))
            (dl_hash dl) = None"
      by (rule sole_user_removed [OF Cons.prems(3,4,5)])
    then show ?thesis
      using True Cons.prems(2,3,5) by (simp add: dl_queue_rmuser_all_dl_queue)
  next
    case False
    then have dn: "d \<in> set n" using Cons.prems(1) by simp
    show ?thesis
    proof (cases "map_of (duds s) i")
      case None
      then show ?thesis using Cons.IH [OF dn Cons.prems(2,3,4,5)] by simp
    next
      case (Some dudi)
      show ?thesis
      proof (cases "map_of (dls s) (dud_dl dudi)")
        case None
        then show ?thesis using Some Cons.IH [OF dn Cons.prems(2,3,4,5)] by simp
      next
        case (Some dli)
        let ?s' = "dl_queue_rm_if_empty_list ie (dud_dl dudi)
                   (case find_index_from (\<lambda>x. x = i) 0 (dl_u dli) of
                      None \<Rightarrow> s | Some j \<Rightarrow> dl_user_rm (dud_dl dudi) j s)"
        from rmuser_step_keeps [OF Cons.prems(2,3,5) False \<open>map_of (duds s) i = Some dudi\<close> Some refl]
        have k: "map_of (duds ?s') d = Some dud" "map_of (dls ?s') (dud_dl dud) = Some dl" by auto
        from Cons.IH [OF dn k Cons.prems(4,5)]
        show ?thesis using Some \<open>map_of (duds s) i = Some dudi\<close> by simp
      qed
    qed
  qed
qed

lemma dl_queue_rmuser_null_removes:
  assumes "map_of (dls s) a = Some dl" "dl_islist dl" "dl_u dl = [d]"
    "map_of (duds s) d = Some dud" "dud_dl dud = a"
    "map_of (queue_users s) (dud_u dud) = Some du" "d \<in> set (du_queue du)"
  shows "map_of (dl_queue (dl_queue_rmuser ie (dud_u dud) None s)) (dl_hash dl) = None"
  using assms dl_queue_rmuser_all_removes [of d "du_queue du" s dud dl ie]
  by (simp add: dl_queue_rmuser_def Let_def)

text \<open>The examples are evaluated one call at a time.\<close>

lemma example_env_simps [simp]:
  "download_dir example_dl_env = ''/dl''"
  "incoming_dir example_dl_env = ''/inc''"
  "db_dir example_dl_env = ''/db''"
  "build_filename example_dl_env a b = a @ ''/'' @ b"
  "fl_filename example_dl_env u = ''0000000000000007.xml.bz2''"
  "tiger_uid example_dl_env u = replicate 24 (ucast u)"
  by (simp_all add: example_dl_env_def)

lemma example_insert_first:
  "dl_queue_insert example_dl_env
      (dl_new0\<lparr>dl_hash := replicate 24 1, dl_size := 100, dl_dest := ''/dl/a.txt''\<rparr>)
      False dl_state_empty
   = (1, \<lparr>dls = [(1, example_file (replicate 24 1) [])], duds = [],
           dl_queue = [(replicate 24 1, 1)], queue_users = [],
           dl_next_addr = 2, dl_queue_needstart = True,
           dl_calls = [Db_dl_insert (replicate 24 1)]\<rparr>)"
  by (simp add: dl_state_empty_def dl_new0_def example_file_def
      dl_queue_insert_def Let_def dl_queue_start_def DL_MINTTHLSIZE_def)

lemma example_user_add_first:
  "dl_user_add 1 7 0 None
      \<lparr>dls = [(1, example_file (replicate 24 1) [])], duds = [],
        dl_queue = [(replicate 24 1, 1)], queue_users = [],
        dl_next_addr = 2, dl_queue_needstart = True,
        dl_calls = [Db_dl_insert (replicate 24 1)]\<rparr>
   = \<lparr>dls = [(1, example_file (replicate 24 1) [2])], duds = [(2, example_dud 1)],
        dl_queue = [(replicate 24 1, 1)], queue_users = [(7, example_user [2])],
        dl_next_addr = 3, dl_queue_needstart = True,
        dl_calls = [Db_dl_insert (replicate 24 1)]\<rparr>"
  by (simp add: dl_user_add_def Let_def example_file_def example_dud_def example_user_def
      dl_new0_def DLU_NCO_def)

lemma example_addfile_first:
  "dl_queue_addfile example_dl_env 7 (replicate 24 1) 100 ''a.txt'' dl_state_empty
     = (True, example_one_file)"
proof -
  have "map_of (dl_queue dl_state_empty) (replicate 24 (1::byte)) = None"
    by (simp add: dl_state_empty_def)
  then show ?thesis
    by (simp add: dl_queue_addfile_def example_one_file_def
        example_insert_first [simplified] example_user_add_first [simplified])
qed

lemma example_insert_second:
  "dl_queue_insert example_dl_env
      (dl_new0\<lparr>dl_hash := replicate 24 2, dl_size := 100, dl_dest := ''/dl/a.txt''\<rparr>)
      False example_one_file
   = (3, \<lparr>dls = [(1, example_file (replicate 24 1) [2]), (3, example_file (replicate 24 2) [])],
           duds = [(2, example_dud 1)],
           dl_queue = [(replicate 24 1, 1), (replicate 24 2, 3)],
           queue_users = [(7, example_user [2])],
           dl_next_addr = 4, dl_queue_needstart = True,
           dl_calls = [Db_dl_insert (replicate 24 1), Db_dl_adduser (replicate 24 1) 7,
                       Db_dl_insert (replicate 24 2)]\<rparr>)"
  by (simp add: example_one_file_def dl_new0_def example_file_def
      dl_queue_insert_def Let_def dl_queue_start_def DL_MINTTHLSIZE_def)

lemma example_user_add_second:
  "dl_user_add 3 7 0 None
      \<lparr>dls = [(1, example_file (replicate 24 1) [2]), (3, example_file (replicate 24 2) [])],
        duds = [(2, example_dud 1)],
        dl_queue = [(replicate 24 1, 1), (replicate 24 2, 3)],
        queue_users = [(7, example_user [2])],
        dl_next_addr = 4, dl_queue_needstart = True,
        dl_calls = [Db_dl_insert (replicate 24 1), Db_dl_adduser (replicate 24 1) 7,
                    Db_dl_insert (replicate 24 2)]\<rparr>
   = \<lparr>dls = [(1, example_file (replicate 24 1) [2]), (3, example_file (replicate 24 2) [4])],
        duds = [(2, example_dud 1), (4, example_dud 3)],
        dl_queue = [(replicate 24 1, 1), (replicate 24 2, 3)],
        queue_users = [(7, example_user [2, 4])],
        dl_next_addr = 5, dl_queue_needstart = True,
        dl_calls = [Db_dl_insert (replicate 24 1), Db_dl_adduser (replicate 24 1) 7,
                    Db_dl_insert (replicate 24 2)]\<rparr>"
  by (simp add: dl_user_add_def Let_def example_file_def example_dud_def example_user_def
      dl_new0_def dud_sort_def dl_user_dl_sort_def dl_user_dl_enabled_def DLP_OFF_def)

lemma example_addfile_second:
  "dl_queue_addfile example_dl_env 7 (replicate 24 2) 100 ''a.txt'' example_one_file
     = (True, example_two_files)"
proof -
  have "map_of (dl_queue example_one_file) (replicate 24 (2::byte)) = None"
    by (simp add: example_one_file_def)
  then show ?thesis
    by (simp add: dl_queue_addfile_def example_two_files_def
        example_insert_second [simplified] example_user_add_second [simplified])
qed

lemma example_two_files_sort:
  "dud_sort example_two_files 2 4 = 0 \<and> dud_sort example_two_files 4 2 = 0"
  by (simp add: example_two_files_def dud_sort_def example_dud_def example_file_def
      dl_user_dl_sort_def dl_user_dl_enabled_def dl_new0_def DLP_OFF_def)

text \<open>
  C5 on the code. \<^verbatim>\<open>dl_queue_addfile\<close> never looks for another queued file with the same
  destination, although its comment promises to choose another name. Queue two
  different files (two hashes) that are both called \<^verbatim>\<open>a.txt\<close> for user 7: the user's queue
  then holds two distinct entries with the same destination, and \<^verbatim>\<open>dl_user_dl_sort\<close>
  returns 0 on them, in both orders. The claim, like the comment of the function
  (\<^verbatim>\<open>Never returns 0\<close>), says it never does.
\<close>

theorem dl_user_dl_sort_ties_on_equal_names:
  "dl_queue_addfile example_dl_env 7 (replicate 24 1) 100 ''a.txt'' dl_state_empty
     = (True, example_one_file)
   \<and> dl_queue_addfile example_dl_env 7 (replicate 24 2) 100 ''a.txt'' example_one_file
     = (True, example_two_files)
   \<and> map_option du_queue (map_of (queue_users example_two_files) 7) = Some [2, 4]
   \<and> map_option dud_dl (map_of (duds example_two_files) 2) = Some 1
   \<and> map_option dud_dl (map_of (duds example_two_files) 4) = Some 3
   \<and> map_option dl_hash (map_of (dls example_two_files) 1) = Some (replicate 24 1)
   \<and> map_option dl_hash (map_of (dls example_two_files) 3) = Some (replicate 24 2)
   \<and> dud_sort example_two_files 2 4 = 0
   \<and> dud_sort example_two_files 4 2 = 0"
  using example_addfile_first example_addfile_second example_two_files_sort
  by (simp add: example_two_files_def example_user_def example_dud_def example_file_def)

lemma dl_queue_insert_small:
  assumes "\<not> dl_islist dl" "dl_size dl < DL_MINTTHLSIZE"
    "dl_hastthl dl \<longrightarrow> dl_hash_block dl = DL_MINTTHLSIZE"
    "dl_queue_insert env dl init s = (a, s')"
  shows "map_of (dl_queue s') (dl_hash dl) = Some a"
    and "\<exists>dl'. map_of (dls s') a = Some dl' \<and> small_file_record env (dl_hash dl) (dl_size dl) dl'"
  using assms
  by (auto simp: dl_queue_insert_def Let_def update_conv' dl_queue_start_def small_file_record_def
      dl_recv_check_def DL_MINTTHLSIZE_def split: if_splits)

lemma dl_user_add_dl_queue [simp]: "dl_queue (dl_user_add a uid e m s) = dl_queue s"
  by (simp add: dl_user_add_def Let_def split: option.splits)

lemma small_file_record_u [simp]:
  "small_file_record env h sz (dl\<lparr>dl_u := x\<rparr>) = small_file_record env h sz dl"
  by (simp add: small_file_record_def dl_recv_check_def)

text \<open>
  C4. A regular file smaller than \<^verbatim>\<open>DL_MINTTHLSIZE\<close> (2 MiB) enters the queue, through
  \<^verbatim>\<open>dl_queue_addfile\<close> or on reload through \<^verbatim>\<open>dl_load_dl\<close>, with \<^verbatim>\<open>hastthl\<close> set (so no
  TTHL is ever asked for), with a block size of 2 MiB, and with \<^verbatim>\<open>dl_recv_check\<close>
  comparing the hash of its single block, block 0, against the root hash of the file.
\<close>

theorem small_file_never_needs_tthl:
  assumes "sz < DL_MINTTHLSIZE"
  shows "(map_of (dl_queue s) h = None \<longrightarrow>
            (\<exists>s' a dl. dl_queue_addfile env uid h sz fn s = (True, s')
               \<and> map_of (dl_queue s') h = Some a \<and> map_of (dls s') a = Some dl
               \<and> small_file_record env h sz dl))
       \<and> (\<exists>a dl. map_of (dl_queue (dl_load_dl env h sz (Some dest) prio err err_msg tthllen s)) h
                    = Some a
               \<and> map_of (dls (dl_load_dl env h sz (Some dest) prio err err_msg tthllen s)) a
                    = Some dl
               \<and> small_file_record env h sz dl)"
proof (intro conjI impI)
  assume nq: "map_of (dl_queue s) h = None"
  let ?dl = "dl_new0\<lparr>dl_hash := h, dl_size := sz,
                      dl_dest := build_filename env (download_dir env) fn\<rparr>"
  obtain a s1 where ins: "dl_queue_insert env ?dl False s = (a, s1)"
    by (cases "dl_queue_insert env ?dl False s")
  have pre: "\<not> dl_islist ?dl" "dl_size ?dl < DL_MINTTHLSIZE"
    "dl_hastthl ?dl \<longrightarrow> dl_hash_block ?dl = DL_MINTTHLSIZE"
    using assms by (simp_all add: dl_new0_def)
  from dl_queue_insert_small [OF pre ins] obtain dl1 where
    q: "map_of (dl_queue s1) h = Some a" and d: "map_of (dls s1) a = Some dl1"
    and r: "small_file_record env h sz dl1" by auto
  have d2: "map_of (dls (dl_user_add a uid 0 None s1)) a = Some (dl1\<lparr>dl_u := dl_u dl1 @ [dl_next_addr s1]\<rparr>)"
    using d r by (simp add: dl_user_add_dls small_file_record_def)
  show "\<exists>s' a dl. dl_queue_addfile env uid h sz fn s = (True, s')
               \<and> map_of (dl_queue s') h = Some a \<and> map_of (dls s') a = Some dl
               \<and> small_file_record env h sz dl"
    using nq ins q d2 r by (simp add: dl_queue_addfile_def Let_def)
next
  let ?dl = "dl_new0\<lparr>dl_hash := h, dl_size := sz, dl_prio := prio, dl_error := err,
                      dl_error_msg := err_msg, dl_dest := dest\<rparr>"
  let ?dl1 = "?dl\<lparr>dl_hastthl := True, dl_hash_block := DL_MINTTHLSIZE\<rparr>"
  obtain a s1 where ins: "dl_queue_insert env ?dl1 True s = (a, s1)"
    by (cases "dl_queue_insert env ?dl1 True s")
  have pre: "\<not> dl_islist ?dl1" "dl_size ?dl1 < DL_MINTTHLSIZE"
    "dl_hastthl ?dl1 \<longrightarrow> dl_hash_block ?dl1 = DL_MINTTHLSIZE"
    using assms by (simp_all add: dl_new0_def)
  have eq: "dl_load_dl env h sz (Some dest) prio err err_msg tthllen s = s1"
    using assms ins by (simp add: dl_load_dl_def Let_def)
  from dl_queue_insert_small [OF pre ins]
  show "\<exists>a dl. map_of (dl_queue (dl_load_dl env h sz (Some dest) prio err err_msg tthllen s)) h
                  = Some a
               \<and> map_of (dls (dl_load_dl env h sz (Some dest) prio err err_msg tthllen s)) a
                  = Some dl
               \<and> small_file_record env h sz dl"
    unfolding eq by auto
qed

theorem small_file_never_needs_tthl_witness:
  "(100::nat) < DL_MINTTHLSIZE
   \<and> map_of (dl_queue dl_state_empty) (replicate 24 (1::byte)) = None
   \<and> (\<exists>s' a dl. dl_queue_addfile example_dl_env 7 (replicate 24 1) 100 ''a.txt'' dl_state_empty
                    = (True, s')
          \<and> map_of (dl_queue s') (replicate 24 1) = Some a \<and> map_of (dls s') a = Some dl
          \<and> small_file_record example_dl_env (replicate 24 1) 100 dl)
   \<and> (\<exists>a dl. map_of (dl_queue (dl_load_dl example_dl_env (replicate 24 1) 100 (Some ''/dl/a.txt'')
                                   0 0 None 0 dl_state_empty)) (replicate 24 1) = Some a
          \<and> map_of (dls (dl_load_dl example_dl_env (replicate 24 1) 100 (Some ''/dl/a.txt'')
                             0 0 None 0 dl_state_empty)) a = Some dl
          \<and> small_file_record example_dl_env (replicate 24 1) 100 dl)"
proof -
  have h1: "(100::nat) < DL_MINTTHLSIZE" by (simp add: DL_MINTTHLSIZE_def)
  have h2: "map_of (dl_queue dl_state_empty) (replicate 24 (1::byte)) = None"
    by (simp add: dl_state_empty_def)
  show ?thesis
    using small_file_never_needs_tthl [OF h1, of dl_state_empty "replicate 24 1" example_dl_env 7
        "''a.txt''" "''/dl/a.txt''" 0 0 None 0] h1 h2
    by simp
qed

text \<open>
  At the threshold itself (a size of exactly 2 MiB, which C4 does not speak of)
  \<^verbatim>\<open>dl_queue_insert\<close> still sets the flag, because it tests \<^verbatim>\<open><=\<close> where \<^verbatim>\<open>dl_load_dl\<close> and
  \<^verbatim>\<open>dl_recv_check\<close> test \<^verbatim>\<open><\<close>; the block is then checked against TTHL data in the
  database that was never requested.
\<close>

lemma threshold_sized_file:
  "map_of (dl_queue s) h = None \<Longrightarrow>
     \<exists>s' a dl. dl_queue_addfile env uid h DL_MINTTHLSIZE fn s = (True, s')
        \<and> map_of (dl_queue s') h = Some a \<and> map_of (dls s') a = Some dl
        \<and> dl_hastthl dl \<and> dl_hash_block dl = DL_MINTTHLSIZE
        \<and> dl_recv_check env dl 0 t = db_dl_checkhash env h 0 t"
  by (simp add: dl_queue_addfile_def dl_queue_insert_def Let_def dl_new0_def dl_user_add_def
      dl_queue_start_def update_conv' dl_recv_check_def split: option.splits)

text \<open>
  C10. Every operation on the queue keeps the invariant that a file list has at most
  one user; \<^verbatim>\<open>dl_user_add\<close> on a file list that has its user changes nothing; and when
  the only user of a queued file list is removed with \<^verbatim>\<open>dl_queue_rmuser\<close>, for that file
  or for all files, the list is no longer in \<^verbatim>\<open>dl_queue\<close>.
\<close>

theorem file_list_keeps_one_user:
  "(list_has_one_user s \<longrightarrow> list_has_one_user (dl_apply env op s))
   \<and> (map_of (dls s) a = Some dl \<and> dl_islist dl \<and> length (dl_u dl) = 1
        \<longrightarrow> dl_user_add a uid e m s = s)
   \<and> (map_of (dl_queue s) (dl_hash dl) = Some a \<and> map_of (dls s) a = Some dl \<and> dl_islist dl
        \<and> dl_u dl = [d] \<and> map_of (duds s) d = Some dud \<and> dud_dl dud = a
        \<and> map_of (queue_users s) (dud_u dud) = Some du \<and> d \<in> set (du_queue du)
        \<longrightarrow> map_of (dl_queue (dl_queue_rmuser ie (dud_u dud) (Some (dl_hash dl)) s)) (dl_hash dl)
              = None
          \<and> map_of (dl_queue (dl_queue_rmuser ie (dud_u dud) None s)) (dl_hash dl) = None)"
proof (intro conjI impI)
  assume "list_has_one_user s"
  then show "list_has_one_user (dl_apply env op s)" by (rule dl_apply_inv)
next
  assume "map_of (dls s) a = Some dl \<and> dl_islist dl \<and> length (dl_u dl) = 1"
  then show "dl_user_add a uid e m s = s" by (simp add: dl_user_add_rejected)
next
  assume h: "map_of (dl_queue s) (dl_hash dl) = Some a \<and> map_of (dls s) a = Some dl \<and> dl_islist dl
        \<and> dl_u dl = [d] \<and> map_of (duds s) d = Some dud \<and> dud_dl dud = a
        \<and> map_of (queue_users s) (dud_u dud) = Some du \<and> d \<in> set (du_queue du)"
  then show "map_of (dl_queue (dl_queue_rmuser ie (dud_u dud) (Some (dl_hash dl)) s)) (dl_hash dl)
              = None"
    using dl_queue_rmuser_one_removes [of s "dl_hash dl" a dl d dud du ie] by simp
  from h show "map_of (dl_queue (dl_queue_rmuser ie (dud_u dud) None s)) (dl_hash dl) = None"
    using dl_queue_rmuser_null_removes [of s a dl d dud du ie] by simp
qed

lemma example_insert_list:
  "dl_queue_insert example_dl_env
      (dl_new0\<lparr>dl_islist := True, dl_flsel := None, dl_flopen := True, dl_flmatch := False,
               dl_hash := replicate 24 7, dl_dest := ''/db/fl/0000000000000007.xml.bz2''\<rparr>)
      False dl_state_empty
   = (1, \<lparr>dls = [(1, example_list [])], duds = [], dl_queue = [(replicate 24 7, 1)],
           queue_users = [], dl_next_addr = 2, dl_queue_needstart = True, dl_calls = []\<rparr>)"
  by (simp add: dl_state_empty_def dl_new0_def example_list_def
      dl_queue_insert_def Let_def dl_queue_start_def)

lemma example_user_add_list:
  "dl_user_add 1 7 0 None
      \<lparr>dls = [(1, example_list [])], duds = [], dl_queue = [(replicate 24 7, 1)],
        queue_users = [], dl_next_addr = 2, dl_queue_needstart = True, dl_calls = []\<rparr>
   = example_list_state"
  by (simp add: dl_user_add_def Let_def example_list_def example_dud_def example_user_def
      dl_new0_def DLU_NCO_def example_list_state_def)

lemma example_addlist:
  "dl_queue_addlist example_dl_env True 7 None True False dl_state_empty = example_list_state"
proof -
  have "map_of (dl_queue dl_state_empty) (replicate 24 (7::byte)) = None"
    by (simp add: dl_state_empty_def)
  then show ?thesis
    by (simp add: dl_queue_addlist_def Let_def
        example_insert_list [simplified] example_user_add_list [simplified])
qed

lemma example_list_state_inv: "list_has_one_user example_list_state"
  by (simp add: list_has_one_user_def example_list_state_def example_list_def)

theorem file_list_keeps_one_user_witness:
  "dl_queue_addlist example_dl_env True 7 None True False dl_state_empty = example_list_state
   \<and> list_has_one_user example_list_state
   \<and> map_of (dl_queue example_list_state) (replicate 24 7) = Some 1
   \<and> map_of (dls example_list_state) 1 = Some (example_list [2])
   \<and> dl_islist (example_list [2]) \<and> dl_u (example_list [2]) = [2]
   \<and> map_of (duds example_list_state) 2 = Some (example_dud 1)
   \<and> map_of (queue_users example_list_state) 7 = Some (example_user [2])
   \<and> list_has_one_user (dl_apply example_dl_env (Op_matchfile 8 (replicate 24 7)) example_list_state)
   \<and> dl_user_add 1 8 0 None example_list_state = example_list_state
   \<and> map_of (dl_queue (dl_queue_rmuser True 7 (Some (replicate 24 7)) example_list_state))
        (replicate 24 7) = None
   \<and> map_of (dl_queue (dl_queue_rmuser True 7 None example_list_state)) (replicate 24 7) = None"
proof -
  have facts:
    "map_of (dl_queue example_list_state) (replicate 24 7) = Some 1"
    "map_of (dls example_list_state) 1 = Some (example_list [2])"
    "dl_islist (example_list [2])" "dl_u (example_list [2]) = [2]"
    "dl_hash (example_list [2]) = replicate 24 7"
    "map_of (duds example_list_state) 2 = Some (example_dud 1)"
    "dud_dl (example_dud 1) = 1" "dud_u (example_dud 1) = 7"
    "map_of (queue_users example_list_state) 7 = Some (example_user [2])"
    "du_queue (example_user [2]) = [2]"
    by (simp_all add: example_list_state_def example_list_def example_dud_def example_user_def
        dl_new0_def)
  show ?thesis
    using file_list_keeps_one_user [of example_list_state example_dl_env
        "Op_matchfile 8 (replicate 24 7)" 1 "example_list [2]" 8 0 None 2 "example_dud 1"
        "example_user [2]" True]
      facts example_addlist example_list_state_inv
    by simp
qed

section \<open>Receive-path properties\<close>









lemma file_truncate_length [simp]:
  "length (f_data (file_truncate f n)) = n"
  "f_pos (file_truncate f n) = f_pos f"
  "f_pos (file_seek f n) = n"
  by (simp_all add: file_truncate_def file_seek_def)



lemma example_tthl [simp]:
  "db_tthl example_dl_env (replicate 24 3)
     = Some ([1, 2, 3, 4] @ replicate 20 0 @ [5, 6, 7, 8] @ replicate 20 0)"
  "tth_of example_dl_env bs = take 24 (bs @ replicate 24 0)"
  by (simp_all add: example_dl_env_def)



section \<open>Persistence-service properties\<close>

lemmas db_consts = DBF_NEXT_def DBF_LAST_def DBF_SINGLE_def DBF_NOCACHE_def DBF_END_def
  DBQ_END_def DBQ_NULL_def DBQ_INT_def DBQ_INT64_def DBQ_TEXT_def DBQ_BLOB_def DBQ_RES_def
  DBQ_LASTID_def SQLITE_ERROR_def SQLITE_ROW_def SQLITE_DONE_def

lemma example_failing_query_step: "db_queue_step example_sqlite (db_queue_start_state ()) (Some example_failing_query)
  = Some \<lparr>ps_trans = True, ps_donext = False, ps_errtrans = True, ps_db = (),
      ps_events = [Ev_begin, Ev_exec 1 [] True, Ev_rollback], ps_running = True\<rparr>"
  by (simp add: db_queue_step_def example_failing_query_def db_queue_item_create_def db_consts
      db_queue_start_state_def example_sqlite_def db_queue_process_one_def db_queue_item_final_def
      db_commit_if_open_def Let_def)

lemma example_chained_query_step: "db_queue_step example_sqlite \<lparr>ps_trans = True, ps_donext = False, ps_errtrans = True, ps_db = (),
      ps_events = [Ev_begin, Ev_exec 1 [] True, Ev_rollback], ps_running = True\<rparr> (Some (example_chained_query [P_int 0]))
  = Some \<lparr>ps_trans = False, ps_donext = False, ps_errtrans = False, ps_db = (),
      ps_events = [Ev_begin, Ev_exec 1 [] True, Ev_rollback], ps_running = True\<rparr>"
  by (simp add: db_queue_step_def example_chained_query_def db_queue_item_create_def db_consts
      db_queue_item_error_def db_queue_item_final_def ptr_opt_def
      db_commit_if_open_def Let_def)

lemma example_chained_query_step_no_params: "db_queue_step example_sqlite \<lparr>ps_trans = True, ps_donext = False, ps_errtrans = True, ps_db = (),
      ps_events = [Ev_begin, Ev_exec 1 [] True, Ev_rollback], ps_running = True\<rparr> (Some (example_chained_query []))
  = Some \<lparr>ps_trans = False, ps_donext = False, ps_errtrans = False, ps_db = (),
      ps_events = [Ev_begin, Ev_exec 1 [] True, Ev_rollback, Ev_final 9 SQLITE_ERROR None],
      ps_running = True\<rparr>"
  by (simp add: db_queue_step_def example_chained_query_def db_queue_item_create_def db_consts
      db_queue_item_error_def db_queue_item_final_def ptr_opt_def
      db_commit_if_open_def Let_def)




text \<open>
  Requests that bind nothing: \<^verbatim>\<open>db_queue_item_error\<close> answers them, a chain of them after a
  failed query is answered in order without anything being run, and the request after
  the chain opens a transaction of its own.
\<close>

lemma db_queue_item_error_scan_columns:
  "db_queue_item_error_scan (C_int32 DBQ_RES # q) = Some (DBQ_RES, q)"
  "db_queue_item_error_scan (C_int32 DBQ_END # q) = Some (DBQ_END, q)"
  by (simp_all add: db_consts)

lemma db_queue_item_error_no_params:
  "db_queue_item_error (tl (db_queue_item_create flags query [] res)) = Some (db_error_reply res)"
  by (cases res)
     (auto simp add: db_queue_item_error_def db_queue_item_create_def db_error_reply_def
        db_queue_item_error_scan_columns db_consts)

lemma db_queue_step_chained_next:
  assumes "ps_errtrans st"
  shows "db_queue_step drv st (Some (db_queue_item_create DBF_NEXT query [] res))
           = Some (st\<lparr>ps_events := ps_events st @ db_error_reply res, ps_donext := True\<rparr>)"
proof -
  have e: "db_queue_item_error (C_ptr query # db_item_args []
             @ (case res of None \<Rightarrow> [] | Some (qu, cols) \<Rightarrow> C_int32 DBQ_RES # C_ptr qu # map C_int32 cols)
             @ [C_int32 DBQ_END]) = Some (db_error_reply res)"
    using db_queue_item_error_no_params [of DBF_NEXT query res]
    by (simp add: db_queue_item_create_def)
  show ?thesis
    using assms
    by (simp add: db_queue_step_def db_queue_item_create_def e [simplified] DBF_NEXT_def
        DBF_SINGLE_def DBF_END_def DBF_NOCACHE_def Let_def)
qed

lemma db_queue_step_chained_last:
  assumes "ps_errtrans st"
  shows "db_queue_step drv st (Some (db_queue_item_create 0 query [] res))
           = Some (st\<lparr>ps_events := ps_events st @ db_error_reply res, ps_donext := False,
                      ps_errtrans := False, ps_trans := False\<rparr>)"
proof -
  have e: "db_queue_item_error (C_ptr query # db_item_args []
             @ (case res of None \<Rightarrow> [] | Some (qu, cols) \<Rightarrow> C_int32 DBQ_RES # C_ptr qu # map C_int32 cols)
             @ [C_int32 DBQ_END]) = Some (db_error_reply res)"
    using db_queue_item_error_no_params [of 0 query res]
    by (simp add: db_queue_item_create_def)
  show ?thesis
    using assms
    by (simp add: db_queue_step_def db_queue_item_create_def e [simplified] DBF_NEXT_def
        DBF_SINGLE_def DBF_END_def DBF_NOCACHE_def Let_def)
qed

lemma db_chain_answered:
  assumes "ps_errtrans st" and "ps_running st"
  shows "db_queue_process drv st
           (map (\<lambda>(query, res). Some (db_queue_item_create DBF_NEXT query [] res)) chain
              @ [Some (db_queue_item_create 0 query' [] res')])
         = Some (st\<lparr>ps_events := ps_events st @ concat (map (\<lambda>(query, res). db_error_reply res) chain)
                                   @ db_error_reply res',
                    ps_donext := False, ps_errtrans := False, ps_trans := False\<rparr>)"
  using assms
proof (induction chain arbitrary: st)
  case Nil
  then show ?case by (simp add: db_queue_step_chained_last)
next
  case (Cons c chain)
  obtain query res where c: "c = (query, res)" by (cases c)
  let ?st = "st\<lparr>ps_events := ps_events st @ db_error_reply res, ps_donext := True\<rparr>"
  have "ps_errtrans ?st" "ps_running ?st" using Cons.prems by simp_all
  from Cons.IH [OF this] show ?case
    using Cons.prems by (simp add: c db_queue_step_chained_next)
qed

lemma db_failed_query_rolls_back:
  assumes "\<not> ps_trans st" and "\<not> ps_errtrans st"
    and "fst (sq_begin drv (ps_db st)) = SQLITE_DONE"
    and "sq_prepare_ok drv (snd (sq_begin drv (ps_db st))) query"
    and "sq_run drv (snd (sq_begin drv (ps_db st))) query [] True = ((rows, r, rowid), db')"
    and "r \<noteq> SQLITE_DONE"
  shows "db_queue_step drv st (Some (db_queue_item_create DBF_NEXT query [] None))
           = Some (st\<lparr>ps_trans := True, ps_errtrans := True, ps_db := sq_rollback drv db',
                      ps_events := ps_events st @ [Ev_begin, Ev_exec query [] True, Ev_rollback]\<rparr>)"
  using assms
  by (simp add: db_queue_step_def db_queue_item_create_def db_queue_process_one_def
      db_queue_item_final_def db_consts Let_def)

lemma db_fresh_transaction:
  assumes "\<not> ps_trans st" and "\<not> ps_errtrans st"
    and "fst (sq_begin drv (ps_db st)) = SQLITE_DONE"
    and "sq_prepare_ok drv (snd (sq_begin drv (ps_db st))) query"
    and "sq_run drv (snd (sq_begin drv (ps_db st))) query [] True = ((rows, SQLITE_DONE, rowid), db')"
  shows "db_queue_step drv st (Some (db_queue_item_create 0 query [] None))
           = Some (st\<lparr>ps_trans := True, ps_db := db',
                      ps_events := ps_events st @ [Ev_begin, Ev_exec query [] True]\<rparr>)"
  using assms
  by (simp add: db_queue_step_def db_queue_item_create_def db_queue_process_one_def
      db_queue_item_final_def db_consts Let_def)

text \<open>
  The example chain when the chained request binds nothing: the failed query is rolled
  back, the chained request is not run and its reply queue gets the error result.
\<close>

lemma example_chain_without_params_answered:
  "db_queue_process example_sqlite (db_queue_start_state ())
     [Some example_failing_query, Some (example_chained_query [])]
  = Some \<lparr>ps_trans = False, ps_donext = False, ps_errtrans = False, ps_db = (),
      ps_events = [Ev_begin, Ev_exec 1 [] True, Ev_rollback, Ev_final 9 SQLITE_ERROR None],
      ps_running = True\<rparr>"
  by (simp only: db_queue_process.simps example_failing_query_step
      example_chained_query_step_no_params option.simps proc_state.select_convs if_True)

text \<open>
  Claim C3: when a query run inside a transaction fails, the service rolls the transaction
  back and answers every request chained to it with an error result on its reply queue,
  without running it. On the example chain whose chained request binds the integer 0, the
  transaction is rolled back and the chained request is not run, but nothing is pushed
  on its reply queue 9: \<^verbatim>\<open>db_queue_item_error\<close> reads the bound value as the type code
  \<^verbatim>\<open>DBQ_END\<close> and stops before it reaches \<^verbatim>\<open>DBQ_RES\<close>.
\<close>

theorem db_chained_request_gets_no_error_reply:
  "db_queue_process example_sqlite (db_queue_start_state ())
     [Some example_failing_query, Some (example_chained_query [P_int 0])]
  = Some \<lparr>ps_trans = False, ps_donext = False, ps_errtrans = False, ps_db = (),
      ps_events = [Ev_begin, Ev_exec 1 [] True, Ev_rollback], ps_running = True\<rparr>"
  by (simp only: db_queue_process.simps example_failing_query_step
      example_chained_query_step option.simps proc_state.select_convs if_True)

end
